theory Spec2Isabelle
  imports Complex_Main
begin

section \<open>Exceptions\<close>

text \<open>
  The Python exceptions that the modelled functions raise or let pass. A function that
  may raise returns a sum, \<open>Inl\<close> holding the exception.
\<close>

datatype py_exception =
    ValueError
  | FileNotFoundError
  | JSONDecodeError
  | AssertionError
  | IndexError
  | KeyError
  | AttributeError
  | NotImplementedError
  | RuntimeError

section \<open>Run provenance extractor (extractors/runprov.py)\<close>

text \<open>
  A run record as \<open>yield_run_records\<close> hands it to \<open>RunProvenanceExtractor.__call__\<close>:
  a dictionary with the keys \<open>gitshasum\<close>, \<open>author_name\<close>, \<open>author_email\<close>,
  \<open>commit_date\<close>, \<open>message\<close> and \<open>diff\<close>, the last one a list of dictionaries
  with the keys \<open>prev_mode\<close>, \<open>mode\<close>, \<open>prev_gitshasum\<close>, \<open>gitshasum\<close>, \<open>path\<close>.
  The records arrive latest first.
\<close>

record diff_entry =
  prev_mode :: string
  mode :: string
  prev_gitshasum :: string
  diff_gitshasum :: string
  diff_path :: string

record run_record =
  rec_gitshasum :: string
  rec_author_name :: string
  rec_author_email :: string
  rec_commit_date :: string
  rec_message :: string
  rec_diff :: "diff_entry list"

text \<open>The value stored in \<open>path_db\<close> for a path: \<open>dict(activity=..., gitshasum=...)\<close>.\<close>

record db_entry =
  activity :: string
  gitshasum :: string

type_synonym path_db = "string \<rightharpoonup> db_entry"

text \<open>
  The inner loop \<open>for d in rec.pop('diff', [])\<close>: a path already in \<open>path_db\<close> is
  skipped, then a deletion (mode \<open>000000\<close>) is skipped, otherwise the entry is stored.
\<close>

fun scan_diff :: "string \<Rightarrow> path_db \<Rightarrow> diff_entry list \<Rightarrow> path_db" where
  "scan_diff sha db [] = db"
| "scan_diff sha db (d # ds) =
     (if diff_path d \<in> dom db then scan_diff sha db ds
      else if mode d = ''000000'' then scan_diff sha db ds
      else scan_diff sha
             (db(diff_path d \<mapsto> \<lparr>activity = sha, gitshasum = diff_gitshasum d\<rparr>)) ds)"

text \<open>The outer loop \<open>for rec in yield_run_records(ds)\<close>, as far as \<open>path_db\<close> goes.\<close>

fun scan_records :: "path_db \<Rightarrow> run_record list \<Rightarrow> path_db" where
  "scan_records db [] = db"
| "scan_records db (r # rs) = scan_records (scan_diff (rec_gitshasum r) db (rec_diff r)) rs"

definition build_path_db :: "run_record list \<Rightarrow> path_db" where
  "build_path_db recs = scan_records Map.empty recs"

text \<open>
  A status entry. \<open>Path(rec['path']).relative_to(ds.pathobj)\<close> works on path
  components, so a path is the list of its components; \<open>relative_to\<close> raises
  \<open>ValueError\<close> when the dataset path is not a prefix. The key \<open>gitshasum\<close> may be
  missing from a status entry (\<open>rec.get('gitshasum', '')\<close>).
\<close>

record status_entry =
  status_path :: "string list"
  status_type :: string
  status_gitshasum :: "string option"

fun relative_to :: "string list \<Rightarrow> string list \<Rightarrow> py_exception + string list" where
  "relative_to p [] = Inr p"
| "relative_to [] (b # bs) = Inl ValueError"
| "relative_to (a # as) (b # bs) = (if a = b then relative_to as bs else Inl ValueError)"

fun join_posix :: "string list \<Rightarrow> string" where
  "join_posix [] = []"
| "join_posix [c] = c"
| "join_posix (c # cs) = c @ ''/'' @ join_posix cs"

definition as_posix :: "string list \<Rightarrow> string" where
  "as_posix p = (if p = [] then ''.'' else join_posix p)"

text \<open>
  The file-level result: the status entry, the \<open>@id\<close> computed by \<open>get_file_id\<close>
  (a function of the package that is a parameter here) and the \<open>@id\<close> of the
  generating activity.
\<close>

record file_result =
  result_rec :: status_entry
  result_id :: string
  generated_by :: string

definition get_default :: "string option \<Rightarrow> string \<Rightarrow> string" where
  "get_default v d = (case v of None \<Rightarrow> d | Some s \<Rightarrow> s)"

text \<open>
  The loop \<open>for rec in status\<close>. The generator yields results one by one, so an
  exception in the middle leaves the results already yielded: the function returns the
  results yielded and the exception, if any.
\<close>

fun content_loop ::
  "(status_entry \<Rightarrow> string) \<Rightarrow> string list \<Rightarrow> path_db \<Rightarrow> status_entry list
     \<Rightarrow> file_result list \<times> py_exception option" where
  "content_loop get_file_id ds_path db [] = ([], None)"
| "content_loop get_file_id ds_path db (r # rs) =
     (case relative_to (status_path r) ds_path of
        Inl e \<Rightarrow> ([], Some e)
      | Inr rel \<Rightarrow>
          (let dbrec = db (as_posix rel);
               rest = content_loop get_file_id ds_path db rs
           in if map_option gitshasum dbrec = Some (get_default (status_gitshasum r) '''')
              then (\<lparr>result_rec = r, result_id = get_file_id r,
                      generated_by = activity (the dbrec)\<rparr> # fst rest, snd rest)
              else rest))"

definition file_results ::
  "(status_entry \<Rightarrow> string) \<Rightarrow> string list \<Rightarrow> run_record list \<Rightarrow> string
     \<Rightarrow> status_entry list \<Rightarrow> file_result list \<times> py_exception option" where
  "file_results get_file_id ds_path recs process_type status =
     (if process_type \<in> {''all'', ''content''}
      then content_loop get_file_id ds_path (build_path_db recs) status
      else ([], None))"

text \<open>
  What the claim says the mapping is: the first record of the list (the most recent one)
  that has a diff entry for the path with a mode other than \<open>000000\<close>, and the first such
  entry of that record.
\<close>

definition touches :: "string \<Rightarrow> diff_entry \<Rightarrow> bool" where
  "touches p d = (diff_path d = p \<and> mode d \<noteq> ''000000'')"

fun latest_generating :: "run_record list \<Rightarrow> string \<Rightarrow> db_entry option" where
  "latest_generating [] p = None"
| "latest_generating (r # rs) p =
     (case find (touches p) (rec_diff r) of
        Some d \<Rightarrow> Some \<lparr>activity = rec_gitshasum r, gitshasum = diff_gitshasum d\<rparr>
      | None \<Rightarrow> latest_generating rs p)"

lemma scan_diff_at:
  "scan_diff sha db ds p =
     (case db p of
        Some e \<Rightarrow> Some e
      | None \<Rightarrow> (case find (touches p) ds of
                   Some d \<Rightarrow> Some \<lparr>activity = sha, gitshasum = diff_gitshasum d\<rparr>
                 | None \<Rightarrow> None))"
proof (induction ds arbitrary: db)
  case Nil
  show ?case by (simp split: option.splits)
next
  case (Cons d ds)
  show ?case
    by (auto simp: Cons.IH touches_def domIff split: option.splits)
qed

lemma scan_records_at:
  "scan_records db recs p =
     (case db p of Some e \<Rightarrow> Some e | None \<Rightarrow> latest_generating recs p)"
proof (induction recs arbitrary: db)
  case Nil
  show ?case by (simp split: option.splits)
next
  case (Cons r rs)
  show ?case
    by (simp add: Cons.IH scan_diff_at split: option.splits)
qed

lemma build_path_db_latest: "build_path_db recs p = latest_generating recs p"
  by (simp add: build_path_db_def scan_records_at)

lemma content_loop_emitted:
  "x \<in> set (fst (content_loop g ds_path db status)) \<Longrightarrow>
     \<exists>rel e. x = \<lparr>result_rec = result_rec x, result_id = g (result_rec x),
                   generated_by = activity e\<rparr>
       \<and> result_rec x \<in> set status
       \<and> relative_to (status_path (result_rec x)) ds_path = Inr rel
       \<and> db (as_posix rel) = Some e
       \<and> gitshasum e = get_default (status_gitshasum (result_rec x)) ''''"
proof (induction status)
  case Nil
  then show ?case by simp
next
  case (Cons r rs)
  show ?case
  proof (cases "relative_to (status_path r) ds_path")
    case (Inl err)
    with Cons.prems show ?thesis by simp
  next
    case (Inr rel)
    show ?thesis
    proof (cases "map_option gitshasum (db (as_posix rel))
                    = Some (get_default (status_gitshasum r) '''')")
      case True
      then obtain e where e: "db (as_posix rel) = Some e"
        and g: "gitshasum e = get_default (status_gitshasum r) ''''"
        by auto
      have "content_loop g ds_path db (r # rs)
              = (\<lparr>result_rec = r, result_id = g r,
                   generated_by = activity (the (db (as_posix rel)))\<rparr>
                 # fst (content_loop g ds_path db rs), snd (content_loop g ds_path db rs))"
        unfolding content_loop.simps Inr sum.case Let_def using True by (rule if_P)
      with Cons.prems
      have "x = \<lparr>result_rec = r, result_id = g r, generated_by = activity e\<rparr>
              \<or> x \<in> set (fst (content_loop g ds_path db rs))"
        by (simp add: e)
      then show ?thesis
      proof
        assume "x = \<lparr>result_rec = r, result_id = g r, generated_by = activity e\<rparr>"
        with Inr e g show ?thesis by auto
      next
        assume "x \<in> set (fst (content_loop g ds_path db rs))"
        from Cons.IH [OF this] show ?thesis by auto
      qed
    next
      case False
      have "content_loop g ds_path db (r # rs) = content_loop g ds_path db rs"
        unfolding content_loop.simps Inr sum.case Let_def using False by (rule if_not_P)
      with Cons.prems have "x \<in> set (fst (content_loop g ds_path db rs))"
        by simp
      from Cons.IH [OF this] show ?thesis by auto
    qed
  qed
qed

text \<open>
  C10. The path database built from the run records (latest first) maps a path to the
  most recent run record whose diff has an entry for the path with a mode other than
  \<open>000000\<close>, deletions never creating or replacing a mapping; and every file-level
  result comes from a status entry whose current gitshasum equals the gitshasum of the
  mapped diff entry, and names that record's activity.
\<close>

theorem runprov_path_db_latest_and_emission:
  "build_path_db recs p = latest_generating recs p
   \<and> (\<forall>x \<in> set (fst (file_results g ds_path recs process_type status)).
        \<exists>rel e. result_rec x \<in> set status
          \<and> relative_to (status_path (result_rec x)) ds_path = Inr rel
          \<and> latest_generating recs (as_posix rel) = Some e
          \<and> gitshasum e = get_default (status_gitshasum (result_rec x)) ''''
          \<and> generated_by x = activity e)"
proof
  show "build_path_db recs p = latest_generating recs p"
    by (rule build_path_db_latest)
next
  show "\<forall>x \<in> set (fst (file_results g ds_path recs process_type status)).
        \<exists>rel e. result_rec x \<in> set status
          \<and> relative_to (status_path (result_rec x)) ds_path = Inr rel
          \<and> latest_generating recs (as_posix rel) = Some e
          \<and> gitshasum e = get_default (status_gitshasum (result_rec x)) ''''
          \<and> generated_by x = activity e"
  proof
    fix x
    assume x: "x \<in> set (fst (file_results g ds_path recs process_type status))"
    then have "x \<in> set (fst (content_loop g ds_path (build_path_db recs) status))"
      by (auto simp: file_results_def split: if_splits)
    from content_loop_emitted [OF this]
    obtain rel e where
      xeq: "x = \<lparr>result_rec = result_rec x, result_id = g (result_rec x),
                 generated_by = activity e\<rparr>"
      and mem: "result_rec x \<in> set status"
      and rel: "relative_to (status_path (result_rec x)) ds_path = Inr rel"
      and db: "build_path_db recs (as_posix rel) = Some e"
      and sha: "gitshasum e = get_default (status_gitshasum (result_rec x)) ''''"
      by blast
    from xeq have "generated_by x = activity e"
      by (metis file_result.select_convs(3))
    with mem rel db sha show "\<exists>rel e. result_rec x \<in> set status
          \<and> relative_to (status_path (result_rec x)) ds_path = Inr rel
          \<and> latest_generating recs (as_posix rel) = Some e
          \<and> gitshasum e = get_default (status_gitshasum (result_rec x)) ''''
          \<and> generated_by x = activity e"
      by (auto simp: build_path_db_latest)
  qed
qed

text \<open>
  An example history, latest first: the newest record deletes \<open>a.txt\<close>, the one
  before wrote it with blob \<open>s2\<close>, the oldest wrote \<open>a.txt\<close> and \<open>b.txt\<close>.
\<close>

definition example_records :: "run_record list" where
  "example_records =
     [\<lparr>rec_gitshasum = ''c3'', rec_author_name = ''A'', rec_author_email = ''a@x'',
        rec_commit_date = ''d3'', rec_message = ''m3'',
        rec_diff = [\<lparr>prev_mode = ''100644'', mode = ''000000'', prev_gitshasum = ''s2'',
                      diff_gitshasum = ''0000'', diff_path = ''a.txt''\<rparr>]\<rparr>,
      \<lparr>rec_gitshasum = ''c2'', rec_author_name = ''A'', rec_author_email = ''a@x'',
        rec_commit_date = ''d2'', rec_message = ''m2'',
        rec_diff = [\<lparr>prev_mode = ''100644'', mode = ''100644'', prev_gitshasum = ''s1'',
                      diff_gitshasum = ''s2'', diff_path = ''a.txt''\<rparr>]\<rparr>,
      \<lparr>rec_gitshasum = ''c1'', rec_author_name = ''A'', rec_author_email = ''a@x'',
        rec_commit_date = ''d1'', rec_message = ''m1'',
        rec_diff = [\<lparr>prev_mode = ''000000'', mode = ''100644'', prev_gitshasum = ''0000'',
                      diff_gitshasum = ''s1'', diff_path = ''a.txt''\<rparr>,
                    \<lparr>prev_mode = ''000000'', mode = ''100644'', prev_gitshasum = ''0000'',
                      diff_gitshasum = ''t1'', diff_path = ''b.txt''\<rparr>]\<rparr>]"

definition example_status :: "status_entry list" where
  "example_status =
     [\<lparr>status_path = [''ds'', ''a.txt''], status_type = ''file'',
        status_gitshasum = Some ''s2''\<rparr>,
      \<lparr>status_path = [''ds'', ''b.txt''], status_type = ''file'',
        status_gitshasum = Some ''t9''\<rparr>]"

theorem runprov_path_db_latest_and_emission_witness:
  "build_path_db example_records ''a.txt'' = Some \<lparr>activity = ''c2'', gitshasum = ''s2''\<rparr>
   \<and> fst (file_results (\<lambda>r. ''id'') [''ds''] example_records ''all'' example_status)
       = [\<lparr>result_rec = \<lparr>status_path = [''ds'', ''a.txt''], status_type = ''file'',
                              status_gitshasum = Some ''s2''\<rparr>,
            result_id = ''id'', generated_by = ''c2''\<rparr>]
   \<and> latest_generating example_records ''a.txt''
       = Some \<lparr>activity = ''c2'', gitshasum = ''s2''\<rparr>"
  using runprov_path_db_latest_and_emission
          [of example_records "''a.txt''" "\<lambda>r. ''id''" "[''ds'']" "''all''" example_status]
  by (simp add: example_records_def example_status_def file_results_def build_path_db_def
        as_posix_def get_default_def touches_def)

section \<open>Custom dataset extractor (extractors/custom_dataset.py)\<close>

text \<open>JSON values; a JSON object read from a file is a Python dictionary.\<close>

datatype json =
    JNull
  | JBool bool
  | JNumber int
  | JString string
  | JArray "json list"
  | JObject "(string \<times> json) list"

type_synonym json_dict = "string \<rightharpoonup> json"

text \<open>
  The value of the configuration variable \<open>datalad.metadata.custom-dataset-source\<close>:
  one string, or several values. \<open>ds.config.obtain(var, [])\<close> gives the default \<open>[]\<close>
  when the variable is not set, and \<open>ensure_list\<close> wraps a single string into a list.
\<close>

datatype config_value = Single string | Multiple "string list"

text \<open>
  What the extractor reads of the dataset: the configuration variable, whether the
  default path \<open>.metadata/dataset.json\<close> exists or is a symlink, and what
  \<open>jsonload(str(ds.pathobj / srcfile))\<close> gives for a source file: an exception or
  the JSON object of the file (the module requires the files to hold JSON objects).
\<close>

record dataset =
  custom_dataset_source :: "config_value option"
  default_available :: bool
  jsonload :: "string \<Rightarrow> py_exception + json_dict"






record 'd ExtractorResult =
  extractor_version :: string
  extraction_parameter :: "string \<rightharpoonup> string"
  extraction_success :: bool
  datalad_result_dict :: "(string \<times> string) list"
  immediate_data :: "'d option"















section \<open>The metadata model as dump.py and extract.py use it\<close>

text \<open>
  The classes of the package \<open>dataladmetadatamodel\<close> are used by the two modules through
  a few attributes and methods; the model has what the modules read and write.
  A metadata source is either the metadata itself or a reference to a git object.
\<close>

datatype MetadataSource =
    ImmediateMetadataSource json
  | LocalGitMetadataSource string string

record ExtractorConfiguration =
  configuration_version :: string
  configuration_parameter :: "string \<rightharpoonup> string"

text \<open>The time stamp is a Python float (\<open>time.time()\<close>); it is only stored and compared.\<close>

record MetadataInstance =
  time_stamp :: real
  author_name :: string
  author_email :: string
  configuration :: ExtractorConfiguration
  metadata_location :: MetadataSource

text \<open>
  \<open>Metadata.extractor_runs()\<close> gives pairs of an extractor name and the runs recorded
  for it, in order.
\<close>

type_synonym Metadata = "(string \<times> MetadataInstance list) list"

text \<open>
  A connector holds the object behind a reference and caches it when loaded. Each
  connector has an identity; the state of the caches is the set of the connectors that
  are loaded. \<open>load_object\<close> caches and returns the object, \<open>purge\<close> drops the cache.
\<close>

record 'a Connector =
  connector_id :: nat
  stored_object :: 'a

type_synonym cache_state = "nat set"

definition load_object :: "'a Connector \<Rightarrow> cache_state \<Rightarrow> 'a \<times> cache_state" where
  "load_object c s = (stored_object c, insert (connector_id c) s)"

definition purge :: "'a Connector \<Rightarrow> cache_state \<Rightarrow> cache_state" where
  "purge c s = s - {connector_id c}"

text \<open>
  Dataset trees and file trees are tries keyed by path components: a node has an
  optional value and named children.
\<close>

datatype 'v TreeNode =
  TreeNode (node_value: "'v option") (child_nodes: "(string \<times> 'v TreeNode) list")

type_synonym FileTree = "Metadata Connector TreeNode"

record MetadataRootRecord =
  dataset_identifier :: string
  dataset_version :: string
  dataset_level_metadata :: "Metadata Connector"
  file_tree :: "FileTree Connector"

type_synonym DatasetTree = "MetadataRootRecord TreeNode"

text \<open>
  The tree version list: version, time stamp and dataset tree, in the order in which
  \<open>versions()\<close> iterates. \<open>get_dataset_tree\<close> raises \<open>KeyError\<close> for a version that is
  not recorded.
\<close>

type_synonym TreeVersionList = "(string \<times> real \<times> DatasetTree) list"

definition versions :: "TreeVersionList \<Rightarrow> string list" where
  "versions tvl = map fst tvl"

definition get_dataset_tree :: "TreeVersionList \<Rightarrow> string \<Rightarrow> py_exception + real \<times> DatasetTree" where
  "get_dataset_tree tvl v = (case map_of tvl v of None \<Rightarrow> Inl KeyError | Some r \<Rightarrow> Inr r)"

definition get_metadata_root_record :: "DatasetTree \<Rightarrow> MetadataRootRecord option" where
  "get_metadata_root_record tree = node_value tree"

section \<open>Tree search (pathutils/treesearch.py)\<close>

record 'v MatchRecord =
  match_path :: string
  match_node :: "'v TreeNode"

fun split_on :: "char \<Rightarrow> string \<Rightarrow> string list" where
  "split_on c [] = [[]]"
| "split_on c (x # xs) =
     (if x = c then [] # split_on c xs
      else (case split_on c xs of [] \<Rightarrow> [[x]] | seg # segs \<Rightarrow> (x # seg) # segs))"

definition path_segments :: "string \<Rightarrow> string list" where
  "path_segments pattern = (if pattern = [] then [] else split_on CHR ''/'' pattern)"

fun lookup_node :: "'v TreeNode \<Rightarrow> string list \<Rightarrow> 'v TreeNode option" where
  "lookup_node node [] = Some node"
| "lookup_node node (seg # segs) =
     (case map_of (child_nodes node) seg of
        None \<Rightarrow> None
      | Some child \<Rightarrow> lookup_node child segs)"

definition join_path :: "string \<Rightarrow> string \<Rightarrow> string" where
  "join_path p name = (if p = [] then name else p @ ''/'' @ name)"

fun record_nodes :: "string \<Rightarrow> 'v TreeNode \<Rightarrow> 'v MatchRecord list"
  and record_nodes_below :: "string \<Rightarrow> (string \<times> 'v TreeNode) list \<Rightarrow> 'v MatchRecord list" where
  "record_nodes p (TreeNode v cs) =
     (case v of None \<Rightarrow> [] | Some x \<Rightarrow> [\<lparr>match_path = p, match_node = TreeNode v cs\<rparr>])
     @ record_nodes_below p cs"
| "record_nodes_below p [] = []"
| "record_nodes_below p (nc # cs) =
     record_nodes (join_path p (fst nc)) (snd nc) @ record_nodes_below p cs"

text \<open>
  Modelled from the spec: \<open>TreeSearch.get_matching_paths\<close> of pathutils/treesearch.py,
  which is not among the sources. Section 4.3: a pattern is resolved segment by segment
  from the root, each segment naming a child; a pattern that does not resolve goes to the
  not-found list as it was given and yields no match; a pattern that resolves yields the
  node itself, or, at a node with children, the direct children for the root pattern
  under \<open>auto_list_root\<close>, or under \<open>recursive\<close> the descendants that carry a record,
  in pre-order with their full paths.
\<close>

definition match_pattern ::
  "'v TreeNode \<Rightarrow> string \<Rightarrow> bool \<Rightarrow> bool \<Rightarrow> 'v MatchRecord list \<times> string list" where
  "match_pattern tree pattern recursive auto_list_root =
     (case lookup_node tree (path_segments pattern) of
        None \<Rightarrow> ([], [pattern])
      | Some node \<Rightarrow>
          (if child_nodes node = [] then ([\<lparr>match_path = pattern, match_node = node\<rparr>], [])
           else if auto_list_root \<and> pattern = []
             then (map (\<lambda>nc. \<lparr>match_path = fst nc, match_node = snd nc\<rparr>) (child_nodes node), [])
           else if recursive then (record_nodes_below pattern (child_nodes node), [])
           else ([\<lparr>match_path = pattern, match_node = node\<rparr>], [])))"

fun get_matching_paths ::
  "'v TreeNode \<Rightarrow> string list \<Rightarrow> bool \<Rightarrow> bool \<Rightarrow> 'v MatchRecord list \<times> string list" where
  "get_matching_paths tree [] recursive auto_list_root = ([], [])"
| "get_matching_paths tree (pattern # patterns) recursive auto_list_root =
     (let here = match_pattern tree pattern recursive auto_list_root;
          rest = get_matching_paths tree patterns recursive auto_list_root
      in (fst here @ fst rest, snd here @ snd rest))"

section \<open>Query pipeline (dump.py)\<close>

datatype ReportPolicy = INDIVIDUAL | COMPLETE

datatype ReportOn = REPORT_FILES | REPORT_DATASETS | REPORT_ALL

text \<open>
  The values that make up a result record: strings, the time stamp, the parameter
  dictionary of a configuration, a metadata source, lists, and dictionaries with their
  keys in insertion order.
\<close>

datatype pyvalue =
    VStr string
  | VFloat real
  | VParameter "string \<rightharpoonup> string"
  | VSource MetadataSource
  | VList "pyvalue list"
  | VDict "(string \<times> pyvalue) list"

definition create_result_record :: "string \<Rightarrow> string \<Rightarrow> pyvalue \<Rightarrow> string \<Rightarrow> pyvalue" where
  "create_result_record mapper realm metadata_record report_type =
     VDict [(''status'', VStr ''ok''),
            (''action'', VStr ''meta_dump''),
            (''source'', VDict [(''mapper'', VStr mapper), (''realm'', VStr realm)]),
            (''type'', VStr report_type),
            (''metadata'', metadata_record)]"

definition create_metadata_instance_record :: "MetadataInstance \<Rightarrow> pyvalue" where
  "create_metadata_instance_record instance =
     VDict [(''extraction_time'', VFloat (time_stamp instance)),
            (''extraction_agent'',
               VStr (author_name instance @ '' <'' @ author_email instance @ ''>'')),
            (''extractor_version'', VStr (configuration_version (configuration instance))),
            (''extractor_parameter'',
               VParameter (configuration_parameter (configuration instance))),
            (''extractor_result'', VSource (metadata_location instance))]"

text \<open>
  The record that the loop over \<open>extractor_runs()\<close> yields for one extractor name:
  \<open>result_json_object\<close> with its key \<open>metadata\<close> set to \<open>{extractor_name: instances}\<close>,
  as it is when it is yielded.
\<close>

definition extractor_record ::
  "string \<Rightarrow> string \<Rightarrow> string \<Rightarrow> (string \<times> pyvalue) list \<Rightarrow> string
     \<Rightarrow> string \<times> MetadataInstance list \<Rightarrow> pyvalue" where
  "extractor_record mapper realm level context report_type run =
     (let instances = map create_metadata_instance_record (snd run)
      in create_result_record mapper realm
           (VDict [(level, VDict (context @ [(''metadata'', VDict [(fst run, VList instances)])]))])
           report_type)"

text \<open>
  \<open>show_dataset_metadata\<close>. A node without a metadata root record has the value
  \<open>None\<close>, and reading an attribute of it raises \<open>AttributeError\<close>.
\<close>

definition show_dataset_metadata ::
  "string \<Rightarrow> string \<Rightarrow> string \<Rightarrow> string \<Rightarrow> string \<Rightarrow> DatasetTree \<Rightarrow> cache_state
     \<Rightarrow> py_exception + pyvalue list \<times> cache_state" where
  "show_dataset_metadata mapper realm root_dataset_identifier root_dataset_version
       dataset_path dataset_tree s =
     (case node_value dataset_tree of
        None \<Rightarrow> Inl AttributeError
      | Some metadata_root_record \<Rightarrow>
          (let (metadata, s1) = load_object (dataset_level_metadata metadata_root_record) s;
               context =
                 [(''root_dataset_identifier'', VStr root_dataset_identifier),
                  (''root_dataset_version'', VStr root_dataset_version),
                  (''dataset_identifier'', VStr (dataset_identifier metadata_root_record)),
                  (''dataset_version'', VStr (dataset_version metadata_root_record)),
                  (''dataset_path'', VStr dataset_path)];
               results =
                 map (extractor_record mapper realm ''dataset_level_metadata'' context
                        ''dataset'') metadata
           in Inr (results, purge (dataset_level_metadata metadata_root_record) s1)))"

text \<open>The loop \<open>for match_record in matches\<close> of \<open>show_file_tree_metadata\<close>.\<close>

fun show_file_matches ::
  "string \<Rightarrow> string \<Rightarrow> string \<Rightarrow> string \<Rightarrow> string \<Rightarrow> Metadata Connector MatchRecord list
     \<Rightarrow> cache_state \<Rightarrow> pyvalue list \<times> cache_state" where
  "show_file_matches mapper realm root_dataset_identifier root_dataset_version
       dataset_path [] s = ([], s)"
| "show_file_matches mapper realm root_dataset_identifier root_dataset_version
       dataset_path (match_record # matches) s =
     (case node_value (match_node match_record) of
        None \<Rightarrow>
          show_file_matches mapper realm root_dataset_identifier root_dataset_version
            dataset_path matches s
      | Some metadata_connector \<Rightarrow>
          (let (metadata, s1) = load_object metadata_connector s;
               context =
                 [(''root_dataset_identifier'', VStr root_dataset_identifier),
                  (''root_dataset_version'', VStr root_dataset_version),
                  (''dataset_path'', VStr dataset_path),
                  (''file_path'', VStr (match_path match_record))];
               results =
                 map (extractor_record mapper realm ''file_level_metadata'' context ''file'')
                   metadata;
               rest = show_file_matches mapper realm root_dataset_identifier
                        root_dataset_version dataset_path matches s1
           in (results @ fst rest, snd rest)))"

definition file_warning :: "string \<Rightarrow> string \<Rightarrow> MetadataRootRecord \<Rightarrow> string \<Rightarrow> string" where
  "file_warning mapper realm metadata_root_record missing_path =
     ''could not locate file path '' @ missing_path @ '' in dataset ''
       @ dataset_identifier metadata_root_record @ ''@''
       @ dataset_version metadata_root_record @ '' in realm '' @ mapper @ '':'' @ realm"

text \<open>
  \<open>show_file_tree_metadata\<close>: the results, the warnings logged, and the cache state.
\<close>

definition show_file_tree_metadata ::
  "string \<Rightarrow> string \<Rightarrow> string \<Rightarrow> string \<Rightarrow> string \<Rightarrow> DatasetTree \<Rightarrow> string \<Rightarrow> bool
     \<Rightarrow> cache_state \<Rightarrow> py_exception + pyvalue list \<times> string list \<times> cache_state" where
  "show_file_tree_metadata mapper realm root_dataset_identifier root_dataset_version
       dataset_path dataset_tree file_pattern recursive s =
     (case node_value dataset_tree of
        None \<Rightarrow> Inl AttributeError
      | Some metadata_root_record \<Rightarrow>
          (let (tree, s1) = load_object (file_tree metadata_root_record) s;
               (matches, not_found_paths) =
                  get_matching_paths tree [file_pattern] recursive False;
               warnings = map (file_warning mapper realm metadata_root_record) not_found_paths;
               (results, s2) =
                  show_file_matches mapper realm root_dataset_identifier root_dataset_version
                    dataset_path matches s1
           in Inr (results, warnings, purge (file_tree metadata_root_record) s2)))"

text \<open>
  A tree metadata path as the parser gives it: the dataset path, the version, which is
  \<open>None\<close> when the address has none, and the path inside the dataset.
\<close>

record TreeMetadataPath =
  dataset_path :: "string option"
  version :: "string option"
  local_path :: string

text \<open>
  Modelled from the spec: the class \<open>TreeMetadataPath\<close> of
  pathutils/metadatapathparser.py, which is not among the sources. The spec gives it the
  fields dataset path, version or unspecified, and local path; the construction with two
  arguments, \<open>TreeMetadataPath("", "")\<close>, leaves the version unspecified.
\<close>

definition TreeMetadataPath_init :: "string \<Rightarrow> string \<Rightarrow> TreeMetadataPath" where
  "TreeMetadataPath_init dataset_path' local_path' =
     \<lparr>dataset_path = Some dataset_path', version = None, local_path = local_path'\<rparr>"

definition normalize_path :: "TreeMetadataPath \<Rightarrow> TreeMetadataPath" where
  "normalize_path path =
     (if dataset_path path = None then TreeMetadataPath_init [] [] else path)"

text \<open>
  The requested version: \<open>path.version\<close>, or the first element of
  \<open>tuple(tree_version_list.versions())\<close> when it is \<open>None\<close>; indexing an empty tuple
  raises \<open>IndexError\<close>.
\<close>

definition requested_root_dataset_version ::
  "TreeVersionList \<Rightarrow> TreeMetadataPath \<Rightarrow> py_exception + string" where
  "requested_root_dataset_version tree_version_list path =
     (case version path of
        None \<Rightarrow> (case versions tree_version_list of [] \<Rightarrow> Inl IndexError | v # vs \<Rightarrow> Inr v)
      | Some v \<Rightarrow> Inr v)"

text \<open>
  The version that \<open>dump_from_dataset_tree\<close> settles on for a path, and the time stamp
  and dataset tree that \<open>get_dataset_tree\<close> returns for it.
\<close>

definition fetch_dataset_tree ::
  "TreeVersionList \<Rightarrow> TreeMetadataPath \<Rightarrow> py_exception + string \<times> real \<times> DatasetTree" where
  "fetch_dataset_tree tree_version_list path =
     (case requested_root_dataset_version tree_version_list (normalize_path path) of
        Inl e \<Rightarrow> Inl e
      | Inr v \<Rightarrow>
          (case get_dataset_tree tree_version_list v of
             Inl e \<Rightarrow> Inl e
           | Inr r \<Rightarrow> Inr (v, r)))"

definition str_option :: "string option \<Rightarrow> string" where
  "str_option v = (case v of None \<Rightarrow> ''None'' | Some s \<Rightarrow> s)"

definition dataset_warning :: "string \<Rightarrow> string \<Rightarrow> TreeMetadataPath \<Rightarrow> string \<Rightarrow> string" where
  "dataset_warning mapper realm path missing_path =
     ''could not locate dataset path '' @ missing_path @ '' in tree version ''
       @ str_option (version path) @ '' in realm '' @ mapper @ '':'' @ realm"

text \<open>The body of the loop \<open>for match_record in matches\<close> of \<open>dump_from_dataset_tree\<close>.\<close>

definition dump_match ::
  "string \<Rightarrow> string \<Rightarrow> string \<Rightarrow> string \<Rightarrow> ReportOn \<Rightarrow> string \<Rightarrow> bool
     \<Rightarrow> MetadataRootRecord MatchRecord \<Rightarrow> cache_state
     \<Rightarrow> py_exception + pyvalue list \<times> string list \<times> cache_state" where
  "dump_match mapper realm root_dataset_identifier root_dataset_version report_on
       file_pattern recursive match_record s =
     (case (if report_on \<in> {REPORT_DATASETS, REPORT_ALL}
            then show_dataset_metadata mapper realm root_dataset_identifier
                   root_dataset_version (match_path match_record) (match_node match_record) s
            else Inr ([], s)) of
        Inl e \<Rightarrow> Inl e
      | Inr (results1, s1) \<Rightarrow>
          (case (if report_on \<in> {REPORT_FILES, REPORT_ALL}
                 then show_file_tree_metadata mapper realm root_dataset_identifier
                        root_dataset_version (match_path match_record)
                        (match_node match_record) file_pattern recursive s1
                 else Inr ([], [], s1)) of
             Inl e \<Rightarrow> Inl e
           | Inr (results2, warnings, s2) \<Rightarrow> Inr (results1 @ results2, warnings, s2)))"

fun dump_matches ::
  "string \<Rightarrow> string \<Rightarrow> string \<Rightarrow> string \<Rightarrow> ReportOn \<Rightarrow> string \<Rightarrow> bool
     \<Rightarrow> MetadataRootRecord MatchRecord list \<Rightarrow> cache_state
     \<Rightarrow> py_exception + pyvalue list \<times> string list \<times> cache_state" where
  "dump_matches mapper realm root_dataset_identifier root_dataset_version report_on
       file_pattern recursive [] s = Inr ([], [], s)"
| "dump_matches mapper realm root_dataset_identifier root_dataset_version report_on
       file_pattern recursive (match_record # matches) s =
     (case dump_match mapper realm root_dataset_identifier root_dataset_version report_on
             file_pattern recursive match_record s of
        Inl e \<Rightarrow> Inl e
      | Inr (results1, warnings1, s1) \<Rightarrow>
          (case dump_matches mapper realm root_dataset_identifier root_dataset_version
                  report_on file_pattern recursive matches s1 of
             Inl e \<Rightarrow> Inl e
           | Inr (results2, warnings2, s2) \<Rightarrow>
               Inr (results1 @ results2, warnings1 @ warnings2, s2)))"

text \<open>
  \<open>dump_from_dataset_tree\<close>: the result records in the order in which they are yielded,
  the warnings logged, and the cache state at the end; or the exception that ends it.
  The normalised path always has a dataset path, which is the one pattern of the search.
\<close>

definition dump_from_dataset_tree ::
  "string \<Rightarrow> string \<Rightarrow> TreeVersionList \<Rightarrow> TreeMetadataPath \<Rightarrow> ReportOn \<Rightarrow> ReportPolicy
     \<Rightarrow> bool \<Rightarrow> cache_state
     \<Rightarrow> py_exception + pyvalue list \<times> string list \<times> cache_state" where
  "dump_from_dataset_tree mapper realm tree_version_list path report_on report_policy
       recursive s =
     (if report_policy \<noteq> INDIVIDUAL then Inl AssertionError
      else
        (case fetch_dataset_tree tree_version_list path of
           Inl e \<Rightarrow> Inl e
         | Inr (requested_version, time_stamp', dataset_tree) \<Rightarrow>
             (case get_metadata_root_record dataset_tree of
                None \<Rightarrow> Inl AttributeError
              | Some root_mrr \<Rightarrow>
                  (let path' = normalize_path path;
                       (matches, not_found_paths) =
                          get_matching_paths dataset_tree [the (dataset_path path')]
                            recursive False;
                       warnings = map (dataset_warning mapper realm path') not_found_paths
                   in (case dump_matches mapper realm (dataset_identifier root_mrr)
                               (dataset_version root_mrr) report_on (local_path path')
                               recursive matches s of
                         Inl e \<Rightarrow> Inl e
                       | Inr (results, warnings', s') \<Rightarrow>
                           Inr (results, warnings @ warnings', s'))))))"

subsection \<open>Examples\<close>

definition example_instance :: "real \<Rightarrow> MetadataInstance" where
  "example_instance t =
     \<lparr>time_stamp = t, author_name = ''A'', author_email = ''a@x'',
      configuration = \<lparr>configuration_version = ''0.1'', configuration_parameter = Map.empty\<rparr>,
      metadata_location = ImmediateMetadataSource (JString ''m'')\<rparr>"

text \<open>
  A dataset tree with a record at the root and one at \<open>sub/a\<close>, whose dataset-level
  metadata holds two runs of the extractor \<open>E1\<close>, with time stamps 1 and 2.
\<close>

definition example_node_a :: DatasetTree where
  "example_node_a =
     TreeNode
       (Some \<lparr>dataset_identifier = ''id-a'', dataset_version = ''va'',
              dataset_level_metadata =
                \<lparr>connector_id = 1,
                 stored_object = [(''E1'', [example_instance 1, example_instance 2])]\<rparr>,
              file_tree = \<lparr>connector_id = 2, stored_object = TreeNode None []\<rparr>\<rparr>)
       []"

definition example_tree :: DatasetTree where
  "example_tree =
     TreeNode
       (Some \<lparr>dataset_identifier = ''id-root'', dataset_version = ''vr'',
              dataset_level_metadata = \<lparr>connector_id = 3, stored_object = []\<rparr>,
              file_tree = \<lparr>connector_id = 4, stored_object = TreeNode None []\<rparr>\<rparr>)
       [(''sub'', TreeNode None [(''a'', example_node_a)])]"

text \<open>Two versions: \<open>v1\<close> recorded at time 10 and listed first, \<open>v2\<close> recorded at time 20.\<close>

definition example_versions :: TreeVersionList where
  "example_versions = [(''v1'', 10, example_tree), (''v2'', 20, example_tree)]"

definition example_query :: "string \<Rightarrow> TreeMetadataPath" where
  "example_query p = \<lparr>dataset_path = Some p, version = None, local_path = []\<rparr>"

subsection \<open>Which version is dumped\<close>

text \<open>
  The version list is most recent first when the time stamps do not increase along it.
\<close>

definition most_recent_first :: "TreeVersionList \<Rightarrow> bool" where
  "most_recent_first tvl = sorted_wrt (\<lambda>a b. fst (snd b) \<le> fst (snd a)) tvl"

lemma fetch_unspecified:
  "version path = None \<Longrightarrow>
     fetch_dataset_tree tvl path = (case tvl of [] \<Rightarrow> Inl IndexError | r # rs \<Rightarrow> Inr r)"
proof (cases tvl)
  case Nil
  assume "version path = None"
  then have "version (normalize_path path) = None"
    by (simp add: normalize_path_def TreeMetadataPath_init_def)
  with Nil show ?thesis
    by (simp add: fetch_dataset_tree_def requested_root_dataset_version_def versions_def)
next
  case (Cons r rs)
  assume "version path = None"
  then have "version (normalize_path path) = None"
    by (simp add: normalize_path_def TreeMetadataPath_init_def)
  with Cons show ?thesis
    by (cases r)
       (simp add: fetch_dataset_tree_def requested_root_dataset_version_def versions_def
          get_dataset_tree_def)
qed

lemma fetch_requested:
  "version path = Some v \<Longrightarrow> dataset_path path \<noteq> None \<Longrightarrow>
     fetch_dataset_tree tvl path
       = (case map_of tvl v of None \<Rightarrow> Inl KeyError | Some r \<Rightarrow> Inr (v, r))"
proof -
  assume v: "version path = Some v" and d: "dataset_path path \<noteq> None"
  from d have "normalize_path path = path"
    by (auto simp: normalize_path_def)
  with v show ?thesis
    by (simp add: fetch_dataset_tree_def requested_root_dataset_version_def
          get_dataset_tree_def split: option.splits)
qed

lemma most_recent_first_head:
  "most_recent_first (r # rs) \<Longrightarrow> e \<in> set (r # rs) \<Longrightarrow> fst (snd e) \<le> fst (snd r)"
  by (auto simp: most_recent_first_def)

text \<open>
  C1, as the code has it. For a path without a version, the version dumped is the first
  one of the tree version list, in the order in which \<open>versions()\<close> iterates, and the
  lookup fails with \<open>IndexError\<close> on an empty list; this is the most recent version when
  the list is most recent first. For a path with a dataset path and a version, the
  dataset tree of exactly that version is fetched, and \<open>KeyError\<close> is raised when the
  version is not recorded.
\<close>

theorem dump_version_resolution:
  "(version path = None \<longrightarrow>
      fetch_dataset_tree tvl path = (case tvl of [] \<Rightarrow> Inl IndexError | r # rs \<Rightarrow> Inr r))
   \<and> (version path = None \<and> tvl \<noteq> [] \<and> most_recent_first tvl \<longrightarrow>
        (\<exists>v ts tree. fetch_dataset_tree tvl path = Inr (v, ts, tree)
           \<and> (\<forall>e \<in> set tvl. fst (snd e) \<le> ts)))
   \<and> (version path = Some v \<and> dataset_path path \<noteq> None \<longrightarrow>
        fetch_dataset_tree tvl path
          = (case map_of tvl v of None \<Rightarrow> Inl KeyError | Some r \<Rightarrow> Inr (v, r)))"
proof (intro conjI impI)
  assume "version path = None"
  then show "fetch_dataset_tree tvl path
               = (case tvl of [] \<Rightarrow> Inl IndexError | r # rs \<Rightarrow> Inr r)"
    by (rule fetch_unspecified)
next
  assume a: "version path = None \<and> tvl \<noteq> [] \<and> most_recent_first tvl"
  then obtain r rs where tvl: "tvl = r # rs" by (cases tvl) auto
  obtain v ts tree where r: "r = (v, ts, tree)" by (cases r) auto
  from a have "fetch_dataset_tree tvl path = Inr (v, ts, tree)"
    by (simp add: fetch_unspecified tvl r)
  moreover from a have "\<forall>e \<in> set tvl. fst (snd e) \<le> ts"
    using most_recent_first_head [of r rs] by (simp add: tvl r)
  ultimately show "\<exists>v ts tree. fetch_dataset_tree tvl path = Inr (v, ts, tree)
           \<and> (\<forall>e \<in> set tvl. fst (snd e) \<le> ts)"
    by blast
next
  assume "version path = Some v \<and> dataset_path path \<noteq> None"
  then show "fetch_dataset_tree tvl path
          = (case map_of tvl v of None \<Rightarrow> Inl KeyError | Some r \<Rightarrow> Inr (v, r))"
    by (simp add: fetch_requested)
qed

theorem dump_version_resolution_witness:
  "fetch_dataset_tree example_versions (example_query ''sub/a'') = Inr (''v1'', 10, example_tree)
   \<and> fetch_dataset_tree example_versions
         \<lparr>dataset_path = Some ''sub/a'', version = Some ''v2'', local_path = []\<rparr>
       = Inr (''v2'', 20, example_tree)
   \<and> most_recent_first [(''v2'', 20, example_tree), (''v1'', 10, example_tree)]
   \<and> fetch_dataset_tree [(''v2'', 20, example_tree), (''v1'', 10, example_tree)]
         (example_query ''sub/a'')
       = Inr (''v2'', 20, example_tree)"
  using dump_version_resolution [of "example_query ''sub/a''" example_versions "''v2''"]
    dump_version_resolution
      [of "\<lparr>dataset_path = Some ''sub/a'', version = Some ''v2'', local_path = []\<rparr>"
          example_versions "''v2''"]
    dump_version_resolution
      [of "example_query ''sub/a''" "[(''v2'', 20, example_tree), (''v1'', 10, example_tree)]"
          "''v2''"]
  by (simp add: example_query_def example_versions_def most_recent_first_def)

text \<open>
  The claim as it is written fails: with \<open>v1\<close> (time stamp 10) listed before \<open>v2\<close>
  (time stamp 20), a path without a version is resolved to \<open>v1\<close>, which is not the most
  recent version recorded.
\<close>

theorem dump_unspecified_version_counterexample:
  "version (example_query ''sub/a'') = None
   \<and> fetch_dataset_tree example_versions (example_query ''sub/a'')
       = Inr (''v1'', 10, example_tree)
   \<and> (''v2'', 20, example_tree) \<in> set example_versions
   \<and> (10::real) < 20"
  by (simp add: example_query_def example_versions_def fetch_dataset_tree_def
        normalize_path_def requested_root_dataset_version_def versions_def
        get_dataset_tree_def)

subsection \<open>Two runs of one extractor\<close>

text \<open>
  C2 at the scenario of the spec: the node \<open>sub/a\<close> holds two runs of \<open>E1\<close>, with time
  stamps 1 and 2, and the query is for datasets under the individual policy. The dump
  yields one result record, whose metadata maps \<open>E1\<close> to the list of both instance
  records, and not one record per run.
\<close>

theorem dump_two_runs_single_record:
  "dump_from_dataset_tree ''git'' ''/r'' example_versions (example_query ''sub/a'')
       REPORT_DATASETS INDIVIDUAL False {}
     = Inr ([create_result_record ''git'' ''/r''
               (VDict [(''dataset_level_metadata'',
                  VDict [(''root_dataset_identifier'', VStr ''id-root''),
                         (''root_dataset_version'', VStr ''vr''),
                         (''dataset_identifier'', VStr ''id-a''),
                         (''dataset_version'', VStr ''va''),
                         (''dataset_path'', VStr ''sub/a''),
                         (''metadata'',
                            VDict [(''E1'',
                              VList [create_metadata_instance_record (example_instance 1),
                                     create_metadata_instance_record (example_instance 2)])])])])
               ''dataset''],
            [], {})"
  by (simp add: dump_from_dataset_tree_def fetch_dataset_tree_def normalize_path_def
        example_query_def requested_root_dataset_version_def versions_def
        example_versions_def get_dataset_tree_def get_metadata_root_record_def
        example_tree_def match_pattern_def path_segments_def example_node_a_def
        dump_match_def show_dataset_metadata_def load_object_def purge_def
        extractor_record_def)

subsection \<open>Patterns that match nothing\<close>


























subsection \<open>Shape of the result records\<close>

fun dict_keys :: "pyvalue \<Rightarrow> string list" where
  "dict_keys (VDict items) = map fst items"
| "dict_keys v = []"

fun dict_values :: "pyvalue \<Rightarrow> pyvalue list" where
  "dict_values (VDict items) = map snd items"
| "dict_values v = []"

fun dict_get :: "pyvalue \<Rightarrow> string \<Rightarrow> pyvalue option" where
  "dict_get (VDict items) k = map_of items k"
| "dict_get v k = None"

fun list_items :: "pyvalue \<Rightarrow> pyvalue list" where
  "list_items (VList xs) = xs"
| "list_items v = []"

text \<open>
  The per-instance mappings of a result record: under \<open>metadata\<close>, under the one key
  \<open>dataset_level_metadata\<close> or \<open>file_level_metadata\<close>, under \<open>metadata\<close> again, the
  elements of the list stored for the extractor name.
\<close>

definition extractor_mappings :: "pyvalue \<Rightarrow> pyvalue list" where
  "extractor_mappings level =
     (case dict_get level ''metadata'' of
        None \<Rightarrow> []
      | Some runs \<Rightarrow> concat (map list_items (dict_values runs)))"

definition instance_mappings :: "pyvalue \<Rightarrow> pyvalue list" where
  "instance_mappings r =
     (case dict_get r ''metadata'' of
        None \<Rightarrow> []
      | Some metadata_record \<Rightarrow> concat (map extractor_mappings (dict_values metadata_record)))"

definition instance_keys :: "string list" where
  "instance_keys =
     [''extraction_time'', ''extraction_agent'', ''extractor_version'',
      ''extractor_parameter'', ''extractor_result'']"

definition result_record_shape :: "string \<Rightarrow> string \<Rightarrow> pyvalue \<Rightarrow> bool" where
  "result_record_shape mapper realm r =
     (dict_keys r = [''status'', ''action'', ''source'', ''type'', ''metadata'']
      \<and> dict_get r ''status'' = Some (VStr ''ok'')
      \<and> dict_get r ''action'' = Some (VStr ''meta_dump'')
      \<and> dict_get r ''source''
          = Some (VDict [(''mapper'', VStr mapper), (''realm'', VStr realm)])
      \<and> dict_get r ''type'' \<in> {Some (VStr ''dataset''), Some (VStr ''file'')}
      \<and> list_all (\<lambda>i. dict_keys i = instance_keys) (instance_mappings r))"

lemma instance_record_keys:
  "dict_keys (create_metadata_instance_record instance) = instance_keys"
  by (simp add: create_metadata_instance_record_def instance_keys_def)

lemma extractor_record_mappings:
  "map_of context ''metadata'' = None \<Longrightarrow>
     instance_mappings (extractor_record mapper realm level context report_type run)
       = map create_metadata_instance_record (snd run)"
  by (simp add: instance_mappings_def extractor_mappings_def extractor_record_def
        create_result_record_def map_add_def)

lemma extractor_record_shape:
  "map_of context ''metadata'' = None \<Longrightarrow> report_type \<in> {''dataset'', ''file''} \<Longrightarrow>
     result_record_shape mapper realm
       (extractor_record mapper realm level context report_type run)"
  unfolding result_record_shape_def
  by (simp add: extractor_record_mappings list_all_iff instance_record_keys)
     (auto simp: extractor_record_def create_result_record_def)

lemma show_dataset_metadata_shape:
  "show_dataset_metadata mapper realm rid rver dpath node s = Inr (results, s') \<Longrightarrow>
     \<forall>r \<in> set results. result_record_shape mapper realm r"
  by (auto simp: show_dataset_metadata_def load_object_def extractor_record_shape
        split: option.splits)

lemma show_file_matches_shape:
  "show_file_matches mapper realm rid rver dpath matches s = (results, s') \<Longrightarrow>
     \<forall>r \<in> set results. result_record_shape mapper realm r"
proof (induction matches arbitrary: s results s')
  case Nil
  then show ?case by simp
next
  case (Cons m ms)
  show ?case
  proof (cases "node_value (match_node m)")
    case None
    with Cons.prems have "show_file_matches mapper realm rid rver dpath ms s = (results, s')"
      by simp
    then show ?thesis by (rule Cons.IH)
  next
    case (Some c)
    obtain r2 s2 where rest:
      "show_file_matches mapper realm rid rver dpath ms (insert (connector_id c) s) = (r2, s2)"
      by (cases "show_file_matches mapper realm rid rver dpath ms (insert (connector_id c) s)")
    from Cons.IH [OF rest] have ih: "\<forall>r \<in> set r2. result_record_shape mapper realm r" .
    from Cons.prems Some rest
    have "results =
            map (extractor_record mapper realm ''file_level_metadata''
                   [(''root_dataset_identifier'', VStr rid),
                    (''root_dataset_version'', VStr rver),
                    (''dataset_path'', VStr dpath),
                    (''file_path'', VStr (match_path m))] ''file'')
              (stored_object c) @ r2"
      by (simp add: load_object_def)
    with ih show ?thesis
      by (auto simp: extractor_record_shape)
  qed
qed

lemma show_file_tree_metadata_shape:
  "show_file_tree_metadata mapper realm rid rver dpath node fp recursive s
       = Inr (results, warnings, s') \<Longrightarrow>
     \<forall>r \<in> set results. result_record_shape mapper realm r"
  by (auto simp: show_file_tree_metadata_def load_object_def
        split: option.splits prod.splits dest!: show_file_matches_shape)

lemma dump_match_shape:
  "dump_match mapper realm rid rver report_on fp recursive m s = Inr (results, warnings, s') \<Longrightarrow>
     \<forall>r \<in> set results. result_record_shape mapper realm r"
  unfolding dump_match_def
  by (auto split: sum.splits if_splits
        dest!: show_dataset_metadata_shape show_file_tree_metadata_shape)

lemma dump_matches_shape:
  "dump_matches mapper realm rid rver report_on fp recursive ms s = Inr (results, warnings, s') \<Longrightarrow>
     \<forall>r \<in> set results. result_record_shape mapper realm r"
proof (induction ms arbitrary: s results warnings s')
  case Nil
  then show ?case by simp
next
  case (Cons m ms)
  from Cons.prems obtain r1 w1 s1 r2 w2 where
    one: "dump_match mapper realm rid rver report_on fp recursive m s = Inr (r1, w1, s1)"
    and rest: "dump_matches mapper realm rid rver report_on fp recursive ms s1 = Inr (r2, w2, s')"
    and res: "results = r1 @ r2"
    by (auto split: sum.splits)
  from dump_match_shape [OF one] Cons.IH [OF rest] res show ?case
    by auto
qed

text \<open>
  C7, as the code has it. Every result record that the dump yields has the keys
  \<open>status\<close>, \<open>action\<close>, \<open>source\<close>, \<open>type\<close> and \<open>metadata\<close>, in this order, with
  \<open>source\<close> holding \<open>mapper\<close> and \<open>realm\<close> and \<open>type\<close> being \<open>dataset\<close> or \<open>file\<close>,
  and every per-instance mapping under \<open>metadata\<close> has exactly the keys
  \<open>extraction_time\<close>, \<open>extraction_agent\<close>, \<open>extractor_version\<close>,
  \<open>extractor_parameter\<close> and \<open>extractor_result\<close>.
\<close>

theorem dump_result_record_shape:
  "dump_from_dataset_tree mapper realm tvl path report_on report_policy recursive s
       = Inr (results, warnings, s') \<Longrightarrow>
     r \<in> set results \<Longrightarrow>
     dict_keys r = [''status'', ''action'', ''source'', ''type'', ''metadata'']
     \<and> dict_get r ''status'' = Some (VStr ''ok'')
     \<and> dict_get r ''action'' = Some (VStr ''meta_dump'')
     \<and> dict_get r ''source'' = Some (VDict [(''mapper'', VStr mapper), (''realm'', VStr realm)])
     \<and> dict_get r ''type'' \<in> {Some (VStr ''dataset''), Some (VStr ''file'')}
     \<and> (\<forall>i \<in> set (instance_mappings r).
           dict_keys i = [''extraction_time'', ''extraction_agent'', ''extractor_version'',
                          ''extractor_parameter'', ''extractor_result''])"
proof -
  assume a: "dump_from_dataset_tree mapper realm tvl path report_on report_policy recursive s
       = Inr (results, warnings, s')" and r: "r \<in> set results"
  from a obtain rid rver fp ms w where
    "dump_matches mapper realm rid rver report_on fp recursive ms s = Inr (results, w, s')"
    by (auto simp: dump_from_dataset_tree_def Let_def
          split: if_splits sum.splits option.splits prod.splits)
  from dump_matches_shape [OF this] r have "result_record_shape mapper realm r"
    by blast
  then show ?thesis
    by (simp add: result_record_shape_def list_all_iff instance_keys_def)
qed

theorem dump_result_record_shape_witness:
  "dump_from_dataset_tree ''git'' ''/r'' example_versions (example_query ''sub/a'')
       REPORT_DATASETS INDIVIDUAL False {}
     = Inr ([extractor_record ''git'' ''/r'' ''dataset_level_metadata''
               [(''root_dataset_identifier'', VStr ''id-root''),
                (''root_dataset_version'', VStr ''vr''),
                (''dataset_identifier'', VStr ''id-a''),
                (''dataset_version'', VStr ''va''),
                (''dataset_path'', VStr ''sub/a'')]
               ''dataset'' (''E1'', [example_instance 1, example_instance 2])],
            [], {})
   \<and> map dict_keys
         (instance_mappings
            (extractor_record ''git'' ''/r'' ''dataset_level_metadata''
               [(''root_dataset_identifier'', VStr ''id-root''),
                (''root_dataset_version'', VStr ''vr''),
                (''dataset_identifier'', VStr ''id-a''),
                (''dataset_version'', VStr ''va''),
                (''dataset_path'', VStr ''sub/a'')]
               ''dataset'' (''E1'', [example_instance 1, example_instance 2])))
       = [[''extraction_time'', ''extraction_agent'', ''extractor_version'',
           ''extractor_parameter'', ''extractor_result''],
          [''extraction_time'', ''extraction_agent'', ''extractor_version'',
           ''extractor_parameter'', ''extractor_result'']]"
proof -
  have run: "dump_from_dataset_tree ''git'' ''/r'' example_versions (example_query ''sub/a'')
       REPORT_DATASETS INDIVIDUAL False {}
     = Inr ([extractor_record ''git'' ''/r'' ''dataset_level_metadata''
               [(''root_dataset_identifier'', VStr ''id-root''),
                (''root_dataset_version'', VStr ''vr''),
                (''dataset_identifier'', VStr ''id-a''),
                (''dataset_version'', VStr ''va''),
                (''dataset_path'', VStr ''sub/a'')]
               ''dataset'' (''E1'', [example_instance 1, example_instance 2])],
            [], {})"
    by (simp add: dump_from_dataset_tree_def fetch_dataset_tree_def normalize_path_def
        example_query_def requested_root_dataset_version_def versions_def
        example_versions_def get_dataset_tree_def get_metadata_root_record_def
        example_tree_def match_pattern_def path_segments_def example_node_a_def
        dump_match_def show_dataset_metadata_def load_object_def purge_def)
  from dump_result_record_shape [OF run] show ?thesis
    by (simp add: run extractor_record_mappings create_metadata_instance_record_def)
qed

text \<open>
  The claim as it is written fails: the instance record has the key \<open>extractor_result\<close>
  and no key \<open>extractor_result_reference\<close>.
\<close>

theorem instance_record_keys_counterexample:
  "dict_keys (create_metadata_instance_record (example_instance 1))
     = [''extraction_time'', ''extraction_agent'', ''extractor_version'',
        ''extractor_parameter'', ''extractor_result'']
   \<and> ''extractor_result_reference''
       \<notin> set (dict_keys (create_metadata_instance_record (example_instance 1)))"
  by (simp add: create_metadata_instance_record_def)

subsection \<open>Purging after a match\<close>

text \<open>All values stored in a tree, and the identities of the connectors of a file tree.\<close>

fun node_values :: "'v TreeNode \<Rightarrow> 'v list"
  and child_values :: "(string \<times> 'v TreeNode) list \<Rightarrow> 'v list" where
  "node_values (TreeNode v cs) = (case v of None \<Rightarrow> [] | Some x \<Rightarrow> [x]) @ child_values cs"
| "child_values [] = []"
| "child_values (nc # cs) = node_values (snd nc) @ child_values cs"

definition file_connector_ids :: "MetadataRootRecord \<Rightarrow> nat set" where
  "file_connector_ids mrr =
     insert (connector_id (file_tree mrr))
       (connector_id ` set (node_values (stored_object (file_tree mrr))))"

lemma node_value_in_values: "node_value n = Some c \<Longrightarrow> c \<in> set (node_values n)"
  by (cases n) simp

lemma child_values_subset:
  "(name, c) \<in> set cs \<Longrightarrow> set (node_values c) \<subseteq> set (child_values cs)"
  by (induction cs) auto

lemma child_values_of_node: "set (child_values (child_nodes n)) \<subseteq> set (node_values n)"
  by (cases n) simp

lemma lookup_node_values:
  "lookup_node t segs = Some n \<Longrightarrow> set (node_values n) \<subseteq> set (node_values t)"
proof (induction segs arbitrary: t)
  case Nil
  then show ?case by simp
next
  case (Cons seg segs)
  from Cons.prems obtain c where c: "map_of (child_nodes t) seg = Some c"
    and l: "lookup_node c segs = Some n"
    by (auto split: option.splits)
  from c have "(seg, c) \<in> set (child_nodes t)" by (rule map_of_SomeD)
  then have "set (node_values c) \<subseteq> set (child_values (child_nodes t))"
    by (rule child_values_subset)
  with Cons.IH [OF l] child_values_of_node [of t] show ?case by blast
qed

lemma record_nodes_values:
  "\<forall>m \<in> set (record_nodes p (t :: 'v TreeNode)).
      set (node_values (match_node m)) \<subseteq> set (node_values t)"
  "\<forall>m \<in> set (record_nodes_below p (cs :: (string \<times> 'v TreeNode) list)).
      set (node_values (match_node m)) \<subseteq> set (child_values cs)"
  by (induction p t and p cs rule: record_nodes_record_nodes_below.induct)
     (auto split: option.splits)

lemma match_pattern_values:
  assumes "m \<in> set (fst (match_pattern t pattern recursive auto_list_root))"
  shows "set (node_values (match_node m)) \<subseteq> set (node_values t)"
proof (cases "lookup_node t (path_segments pattern)")
  case None
  with assms show ?thesis by (simp add: match_pattern_def)
next
  case (Some n)
  from lookup_node_values [OF Some] have n: "set (node_values n) \<subseteq> set (node_values t)" .
  have below: "set (child_values (child_nodes n)) \<subseteq> set (node_values t)"
    using child_values_of_node [of n] n by blast
  from assms Some
  consider "match_node m = n"
    | "\<exists>name. (name, match_node m) \<in> set (child_nodes n)"
    | "m \<in> set (record_nodes_below pattern (child_nodes n))"
    by (auto simp: match_pattern_def split: if_splits) blast+
  then show ?thesis
  proof cases
    case 1
    with n show ?thesis by simp
  next
    case 2
    then obtain name where "(name, match_node m) \<in> set (child_nodes n)" ..
    from child_values_subset [OF this] below show ?thesis by blast
  next
    case 3
    with record_nodes_values(2) [of pattern "child_nodes n"] below show ?thesis by blast
  qed
qed

lemma get_matching_paths_values:
  "m \<in> set (fst (get_matching_paths t patterns recursive auto_list_root)) \<Longrightarrow>
     set (node_values (match_node m)) \<subseteq> set (node_values t)"
  by (induction patterns) (auto simp: Let_def dest: match_pattern_values)

lemma show_file_matches_loaded:
  "x \<in> snd (show_file_matches mapper realm rid rver dpath matches s) \<Longrightarrow>
     x \<in> s \<or> (\<exists>m \<in> set matches. \<exists>c. node_value (match_node m) = Some c \<and> connector_id c = x)"
proof (induction matches arbitrary: s)
  case Nil
  then show ?case by simp
next
  case (Cons m ms)
  show ?case
  proof (cases "node_value (match_node m)")
    case None
    with Cons.prems have "x \<in> snd (show_file_matches mapper realm rid rver dpath ms s)"
      by simp
    from Cons.IH [OF this] show ?thesis by auto
  next
    case (Some c)
    with Cons.prems
    have "x \<in> snd (show_file_matches mapper realm rid rver dpath ms (insert (connector_id c) s))"
      by (simp add: load_object_def Let_def)
    from Cons.IH [OF this] Some show ?thesis by auto
  qed
qed

lemma show_dataset_metadata_purged:
  "show_dataset_metadata mapper realm rid rver dpath node s = Inr (results, s') \<Longrightarrow>
     node_value node = Some mrr \<Longrightarrow>
     s' = s - {connector_id (dataset_level_metadata mrr)}"
  by (auto simp: show_dataset_metadata_def load_object_def purge_def)

lemma show_file_tree_metadata_purged:
  assumes "show_file_tree_metadata mapper realm rid rver dpath node fp recursive s
             = Inr (results, warnings, s')"
    and "node_value node = Some mrr"
  shows "connector_id (file_tree mrr) \<notin> s' \<and> s' \<subseteq> s \<union> file_connector_ids mrr"
proof -
  obtain ms nf where ms: "get_matching_paths (stored_object (file_tree mrr)) [fp] recursive False
                            = (ms, nf)"
    by (cases "get_matching_paths (stored_object (file_tree mrr)) [fp] recursive False")
  obtain rs s2 where fm: "show_file_matches mapper realm rid rver dpath ms
                            (insert (connector_id (file_tree mrr)) s) = (rs, s2)"
    by (cases "show_file_matches mapper realm rid rver dpath ms
                 (insert (connector_id (file_tree mrr)) s)")
  from assms ms fm have s': "s' = s2 - {connector_id (file_tree mrr)}"
    by (simp add: show_file_tree_metadata_def load_object_def purge_def
          del: get_matching_paths.simps)
  have "s2 \<subseteq> s \<union> file_connector_ids mrr"
  proof
    fix x
    assume "x \<in> s2"
    with fm have "x \<in> snd (show_file_matches mapper realm rid rver dpath ms
                            (insert (connector_id (file_tree mrr)) s))"
      by simp
    from show_file_matches_loaded [OF this]
    consider "x \<in> insert (connector_id (file_tree mrr)) s"
      | m c where "m \<in> set ms" "node_value (match_node m) = Some c" "connector_id c = x"
      by blast
    then show "x \<in> s \<union> file_connector_ids mrr"
    proof cases
      case 1
      then show ?thesis by (auto simp: file_connector_ids_def)
    next
      case 2
      from 2(1) ms
      have "m \<in> set (fst (get_matching_paths (stored_object (file_tree mrr)) [fp]
                             recursive False))"
        by simp
      from get_matching_paths_values [OF this] node_value_in_values [OF 2(2)]
      have "c \<in> set (node_values (stored_object (file_tree mrr)))" by blast
      with 2(3) show ?thesis by (auto simp: file_connector_ids_def)
    qed
  qed
  with s' show ?thesis by auto
qed

text \<open>
  C8. When the loop over the matches has dealt with a match whose node holds the record
  \<open>mrr\<close>, and goes on with the remaining matches in the cache state \<open>s1\<close>, then in
  \<open>s1\<close> the connector of the dataset-level metadata of \<open>mrr\<close> is not loaded if datasets
  were reported, and the connector of its file tree is not loaded if files were
  reported. Connectors are distinct objects: the identity of the connector of the
  dataset-level metadata is none of those of the file tree and of the file-level
  metadata of the same record.
\<close>

theorem dump_matches_purge_before_next:
  assumes "dump_matches mapper realm rid rver report_on fp recursive (m # ms) s
             = Inr (results, warnings, s')"
    and "node_value (match_node m) = Some mrr"
    and "connector_id (dataset_level_metadata mrr) \<notin> file_connector_ids mrr"
  shows "\<exists>r1 w1 s1 r2 w2.
           dump_match mapper realm rid rver report_on fp recursive m s = Inr (r1, w1, s1)
           \<and> dump_matches mapper realm rid rver report_on fp recursive ms s1 = Inr (r2, w2, s')
           \<and> results = r1 @ r2
           \<and> (report_on \<in> {REPORT_DATASETS, REPORT_ALL} \<longrightarrow>
                connector_id (dataset_level_metadata mrr) \<notin> s1)
           \<and> (report_on \<in> {REPORT_FILES, REPORT_ALL} \<longrightarrow>
                connector_id (file_tree mrr) \<notin> s1)"
proof -
  from assms(1) obtain r1 w1 s1 r2 w2 where
    one: "dump_match mapper realm rid rver report_on fp recursive m s = Inr (r1, w1, s1)"
    and rest: "dump_matches mapper realm rid rver report_on fp recursive ms s1 = Inr (r2, w2, s')"
    and res: "results = r1 @ r2"
    by (auto split: sum.splits)
  have d: "connector_id (dataset_level_metadata mrr) \<notin> s1"
    if "report_on \<in> {REPORT_DATASETS, REPORT_ALL}"
  proof (cases "report_on = REPORT_ALL")
    case True
    with one obtain ra sa rb where
      a: "show_dataset_metadata mapper realm rid rver (match_path m) (match_node m) s
            = Inr (ra, sa)"
      and b: "show_file_tree_metadata mapper realm rid rver (match_path m) (match_node m)
                fp recursive sa = Inr (rb, w1, s1)"
      by (auto simp: dump_match_def split: sum.splits)
    from show_dataset_metadata_purged [OF a assms(2)]
    have "connector_id (dataset_level_metadata mrr) \<notin> sa" by simp
    with show_file_tree_metadata_purged [OF b assms(2)] assms(3) show ?thesis by blast
  next
    case False
    with that have "report_on = REPORT_DATASETS" by simp
    with one obtain ra where
      "show_dataset_metadata mapper realm rid rver (match_path m) (match_node m) s
         = Inr (ra, s1)"
      by (auto simp: dump_match_def split: sum.splits)
    from show_dataset_metadata_purged [OF this assms(2)] show ?thesis by simp
  qed
  have f: "connector_id (file_tree mrr) \<notin> s1" if "report_on \<in> {REPORT_FILES, REPORT_ALL}"
  proof -
    from that one obtain sa rb where
      "show_file_tree_metadata mapper realm rid rver (match_path m) (match_node m)
         fp recursive sa = Inr (rb, w1, s1)"
      by (auto simp: dump_match_def split: sum.splits if_splits)
    from show_file_tree_metadata_purged [OF this assms(2)] show ?thesis by simp
  qed
  from one rest res d f show ?thesis by blast
qed

text \<open>
  An example with files: the node \<open>sub/a\<close> with a file tree that holds metadata for
  \<open>f.txt\<close>, dumped for datasets and files; then the root node is dumped in a state in
  which none of the connectors is loaded.
\<close>

definition example_node_b :: DatasetTree where
  "example_node_b =
     TreeNode
       (Some \<lparr>dataset_identifier = ''id-b'', dataset_version = ''vb'',
              dataset_level_metadata =
                \<lparr>connector_id = 5, stored_object = [(''E1'', [example_instance 1])]\<rparr>,
              file_tree =
                \<lparr>connector_id = 6,
                 stored_object =
                   TreeNode None
                     [(''f.txt'',
                       TreeNode (Some \<lparr>connector_id = 7,
                                        stored_object = [(''E2'', [example_instance 2])]\<rparr>)
                         [])]\<rparr>\<rparr>)
       []"

theorem dump_matches_purge_before_next_witness:
  "map_sum id (\<lambda>x. (length (fst x), snd x))
       (dump_matches ''git'' ''/r'' ''id-root'' ''vr'' REPORT_ALL ''f.txt'' False
          [\<lparr>match_path = ''b'', match_node = example_node_b\<rparr>,
           \<lparr>match_path = ''sub/a'', match_node = example_node_a\<rparr>] {})
     = Inr (3, [''could not locate file path f.txt in dataset id-a@va in realm git:/r''], {7})
   \<and> map_sum id (\<lambda>x. snd (snd x))
         (dump_match ''git'' ''/r'' ''id-root'' ''vr'' REPORT_ALL ''f.txt'' False
            \<lparr>match_path = ''b'', match_node = example_node_b\<rparr> {})
       = Inr {7}
   \<and> file_connector_ids (the (node_value example_node_b)) = {6, 7}
   \<and> connector_id (dataset_level_metadata (the (node_value example_node_b))) = 5"
proof -
  have vals: "node_value example_node_b
      = Some \<lparr>dataset_identifier = ''id-b'', dataset_version = ''vb'',
              dataset_level_metadata =
                \<lparr>connector_id = 5, stored_object = [(''E1'', [example_instance 1])]\<rparr>,
              file_tree =
                \<lparr>connector_id = 6,
                 stored_object =
                   TreeNode None
                     [(''f.txt'',
                       TreeNode (Some \<lparr>connector_id = 7,
                                        stored_object = [(''E2'', [example_instance 2])]\<rparr>)
                         [])]\<rparr>\<rparr>"
    by (simp add: example_node_b_def)
  have ids: "file_connector_ids (the (node_value example_node_b)) = {6, 7}"
    by (simp add: vals file_connector_ids_def)
  have "\<exists>r. dump_match ''git'' ''/r'' ''id-root'' ''vr'' REPORT_ALL ''f.txt'' False
                   \<lparr>match_path = ''b'', match_node = example_node_b\<rparr> {}
              = Inr (r, [], {7}) \<and> length r = 2"
    by (simp add: dump_match_def show_dataset_metadata_def show_file_tree_metadata_def
          vals load_object_def purge_def match_pattern_def path_segments_def Let_def
          insert_Diff_if)
  then obtain r1 where one:
      "dump_match ''git'' ''/r'' ''id-root'' ''vr'' REPORT_ALL ''f.txt'' False
         \<lparr>match_path = ''b'', match_node = example_node_b\<rparr> {} = Inr (r1, [], {7})"
    and len1: "length r1 = 2"
    by blast
  have "\<exists>r. dump_match ''git'' ''/r'' ''id-root'' ''vr'' REPORT_ALL ''f.txt'' False
                   \<lparr>match_path = ''sub/a'', match_node = example_node_a\<rparr> {7}
              = Inr (r, [''could not locate file path f.txt in dataset id-a@va in realm git:/r''],
                     {7})
            \<and> length r = 1"
    by (simp add: dump_match_def show_dataset_metadata_def show_file_tree_metadata_def
          example_node_a_def load_object_def purge_def match_pattern_def path_segments_def
          Let_def file_warning_def insert_Diff_if)
  then obtain r2 where two:
      "dump_match ''git'' ''/r'' ''id-root'' ''vr'' REPORT_ALL ''f.txt'' False
         \<lparr>match_path = ''sub/a'', match_node = example_node_a\<rparr> {7}
       = Inr (r2, [''could not locate file path f.txt in dataset id-a@va in realm git:/r''],
              {7})"
    and len2: "length r2 = 1"
    by blast
  have run: "dump_matches ''git'' ''/r'' ''id-root'' ''vr'' REPORT_ALL ''f.txt'' False
       [\<lparr>match_path = ''b'', match_node = example_node_b\<rparr>,
        \<lparr>match_path = ''sub/a'', match_node = example_node_a\<rparr>] {}
     = Inr (r1 @ r2, [''could not locate file path f.txt in dataset id-a@va in realm git:/r''],
            {7})"
    by (simp add: one two)
  have hyp: "connector_id (dataset_level_metadata (the (node_value example_node_b)))
               \<notin> file_connector_ids (the (node_value example_node_b))"
    by (simp add: ids) (simp add: vals)
  have nv: "node_value (match_node \<lparr>match_path = ''b'', match_node = example_node_b\<rparr>)
              = Some (the (node_value example_node_b))"
    by (simp add: vals)
  from dump_matches_purge_before_next [OF run nv hyp] run one ids len1 len2 show ?thesis
    by (simp add: vals)
qed

section \<open>Extraction and the write pipeline (extract.py)\<close>

datatype DataOutputCategory = IMMEDIATE | FILE | DIRECTORY

text \<open>
  An extractor as \<open>perform_dataset_metadata_extraction\<close> and
  \<open>perform_file_metadata_extraction\<close> use it: its output category, the result of its
  \<open>extract\<close> method, and, for the category \<open>FILE\<close>, the hash that
  \<open>git hash-object -w\<close> gives for the file that the extractor wrote.
\<close>

record extractor =
  data_output_category :: DataOutputCategory
  extract_result :: "json ExtractorResult"
  written_object_hash :: string

text \<open>
  The extractor classes that are subclasses of \<open>MetadataExtractorBase\<close>; the path for
  legacy extractors is not modelled.
\<close>

datatype extractor_class =
    DatasetMetadataExtractor extractor
  | FileMetadataExtractor extractor

record ExtractionParameter =
  ep_realm :: string
  source_dataset_id :: string
  ep_extractor_class :: extractor_class
  extractor_name :: string
  dataset_tree_path :: string
  file_tree_path :: string
  root_primary_data_version :: string
  source_primary_data_version :: string
  agent_name :: string
  agent_email :: string

text \<open>
  The top-level nodes as the write pipeline sees them: for a version and a dataset tree
  path, the metadata root record with its dataset-level metadata and its file tree, each
  of which may be missing; a file tree maps a file path to metadata.
\<close>

record root_record =
  record_dataset_identifier :: string
  record_dataset_version :: string
  record_dataset_level_metadata :: "Metadata option"
  record_file_tree :: "(string \<rightharpoonup> Metadata) option"

type_synonym top_nodes = "string \<times> string \<rightharpoonup> root_record"

text \<open>
  The calls that leave the module: to the backend lock, to the metadata model and to the
  object store. Each of them may raise.
\<close>

datatype backend_call =
    LockBackend
  | GetTopNodes
  | AddExtractorRun
  | SaveTreeVersionList
  | SaveUUIDSet
  | FlushObjectReferences
  | UnlockBackend

text \<open>
  The state of a realm and of the process that writes to it: whether the lock is held,
  what is persisted under the tree version list and under the UUID set, whether written
  references wait for a flush, the top-level nodes in memory, and the calls made so far.
\<close>

record realm_state =
  locked :: bool
  stored_tree_version_list :: top_nodes
  stored_uuid_set :: top_nodes
  pending_references :: bool
  loaded_nodes :: top_nodes
  backend_calls :: "backend_call list"

definition lock_backend :: "realm_state \<Rightarrow> realm_state" where
  "lock_backend s = s\<lparr>locked := True\<rparr>"

definition unlock_backend :: "realm_state \<Rightarrow> realm_state" where
  "unlock_backend s = s\<lparr>locked := False\<rparr>"

definition node_key :: "ExtractionParameter \<Rightarrow> string \<times> string" where
  "node_key ep = (source_primary_data_version ep, dataset_tree_path ep)"

text \<open>
  Modelled from the spec: \<open>get_top_nodes_and_metadata_root_record\<close> of the package
  \<open>dataladmetadatamodel\<close>, called with \<open>auto_create=True\<close>. Section 4.4, steps 1 and 2:
  the roots are loaded; the node at the dataset tree path is located, and when it is
  absent it is created with a fresh metadata root record seeded with the dataset
  identifier and the version; an existing record is left as it is.
\<close>

definition get_top_nodes_and_metadata_root_record ::
  "ExtractionParameter \<Rightarrow> realm_state \<Rightarrow> realm_state" where
  "get_top_nodes_and_metadata_root_record ep s =
     s\<lparr>loaded_nodes :=
         (case stored_tree_version_list s (node_key ep) of
            Some mrr \<Rightarrow> stored_tree_version_list s
          | None \<Rightarrow>
              (stored_tree_version_list s)
                (node_key ep \<mapsto>
                   \<lparr>record_dataset_identifier = source_dataset_id ep,
                    record_dataset_version = source_primary_data_version ep,
                    record_dataset_level_metadata = None,
                    record_file_tree = None\<rparr>))\<rparr>"

text \<open>A change of the metadata root record in memory.\<close>

definition update_mrr ::
  "ExtractionParameter \<Rightarrow> (root_record \<Rightarrow> root_record) \<Rightarrow> realm_state \<Rightarrow> realm_state" where
  "update_mrr ep f s =
     s\<lparr>loaded_nodes :=
         (case loaded_nodes s (node_key ep) of
            None \<Rightarrow> loaded_nodes s
          | Some mrr \<Rightarrow> (loaded_nodes s)(node_key ep \<mapsto> f mrr))\<rparr>"

text \<open>
  \<open>mrr.get_dataset_level_metadata()\<close>, and \<open>Metadata(...)\<close> with
  \<open>mrr.set_dataset_level_metadata\<close> when there is none.
\<close>

definition ensure_dataset_level_metadata :: "ExtractionParameter \<Rightarrow> realm_state \<Rightarrow> realm_state" where
  "ensure_dataset_level_metadata ep =
     update_mrr ep
       (\<lambda>mrr. case record_dataset_level_metadata mrr of
                None \<Rightarrow> mrr\<lparr>record_dataset_level_metadata := Some []\<rparr>
              | Some m \<Rightarrow> mrr)"

text \<open>
  \<open>mrr.get_file_tree()\<close> with \<open>FileTree(...)\<close> when there is none, then
  \<open>file_tree.get_metadata\<close> or \<open>Metadata(...)\<close> with \<open>file_tree.add_metadata\<close> when the
  file path is not in the file tree.
\<close>

definition ensure_file_level_metadata :: "ExtractionParameter \<Rightarrow> realm_state \<Rightarrow> realm_state" where
  "ensure_file_level_metadata ep =
     update_mrr ep
       (\<lambda>mrr. let tree = (case record_file_tree mrr of None \<Rightarrow> Map.empty | Some t \<Rightarrow> t)
              in mrr\<lparr>record_file_tree :=
                      Some (if file_tree_path ep \<in> dom tree then tree
                            else tree(file_tree_path ep \<mapsto> []))\<rparr>)"

text \<open>
  \<open>Metadata.add_extractor_run\<close> belongs to the package \<open>dataladmetadatamodel\<close>; the
  write pipeline takes it as a parameter: from the time stamp, the extractor name, the
  agent, the configuration and the metadata source it gives the new metadata.
\<close>

type_synonym add_extractor_run =
  "real \<Rightarrow> string \<Rightarrow> string \<Rightarrow> string \<Rightarrow> ExtractorConfiguration \<Rightarrow> MetadataSource
     \<Rightarrow> Metadata \<Rightarrow> Metadata"

text \<open>\<open>add_metadata_source\<close>, on the dataset-level metadata and on the metadata of a file.\<close>

definition add_metadata_source ::
  "add_extractor_run \<Rightarrow> real \<Rightarrow> ExtractionParameter \<Rightarrow> json ExtractorResult \<Rightarrow> MetadataSource
     \<Rightarrow> Metadata \<Rightarrow> Metadata" where
  "add_metadata_source add_run now ep result metadata_source metadata =
     add_run now (extractor_name ep) (agent_name ep) (agent_email ep)
       \<lparr>configuration_version = extractor_version result,
        configuration_parameter = extraction_parameter result\<rparr>
       metadata_source metadata"

definition add_dataset_level_run ::
  "add_extractor_run \<Rightarrow> real \<Rightarrow> ExtractionParameter \<Rightarrow> json ExtractorResult \<Rightarrow> MetadataSource
     \<Rightarrow> realm_state \<Rightarrow> realm_state" where
  "add_dataset_level_run add_run now ep result metadata_source =
     update_mrr ep
       (\<lambda>mrr. mrr\<lparr>record_dataset_level_metadata :=
                    map_option (add_metadata_source add_run now ep result metadata_source)
                      (record_dataset_level_metadata mrr)\<rparr>)"

definition add_file_level_run ::
  "add_extractor_run \<Rightarrow> real \<Rightarrow> ExtractionParameter \<Rightarrow> json ExtractorResult \<Rightarrow> MetadataSource
     \<Rightarrow> realm_state \<Rightarrow> realm_state" where
  "add_file_level_run add_run now ep result metadata_source =
     update_mrr ep
       (\<lambda>mrr. mrr\<lparr>record_file_tree :=
                    map_option
                      (\<lambda>tree. case tree (file_tree_path ep) of
                                None \<Rightarrow> tree
                              | Some metadata \<Rightarrow>
                                  tree(file_tree_path ep \<mapsto>
                                    add_metadata_source add_run now ep result metadata_source
                                      metadata))
                      (record_file_tree mrr)\<rparr>)"

text \<open>
  \<open>save\<close> persists the top-level nodes as they are in memory; the references written
  wait for \<open>flush_object_references\<close>.
\<close>

definition save_tree_version_list :: "realm_state \<Rightarrow> realm_state" where
  "save_tree_version_list s =
     s\<lparr>stored_tree_version_list := loaded_nodes s, pending_references := True\<rparr>"

definition save_uuid_set :: "realm_state \<Rightarrow> realm_state" where
  "save_uuid_set s = s\<lparr>stored_uuid_set := loaded_nodes s, pending_references := True\<rparr>"

definition flush_object_references :: "realm_state \<Rightarrow> realm_state" where
  "flush_object_references s = s\<lparr>pending_references := False\<rparr>"

text \<open>
  A function body as a sequence of statements: a statement is a call that leaves the
  module, which is recorded and may raise, in which case the statements after it are not
  executed, or a statement on the objects in memory.
\<close>

type_synonym statement = "backend_call option \<times> (realm_state \<Rightarrow> realm_state)"

fun run_statements ::
  "(backend_call \<Rightarrow> py_exception option) \<Rightarrow> statement list \<Rightarrow> realm_state
     \<Rightarrow> realm_state \<times> py_exception option" where
  "run_statements raises [] s = (s, None)"
| "run_statements raises ((None, effect) # rest) s = run_statements raises rest (effect s)"
| "run_statements raises ((Some c, effect) # rest) s =
     (case raises c of
        Some e \<Rightarrow> (s\<lparr>backend_calls := backend_calls s @ [c]\<rparr>, Some e)
      | None \<Rightarrow>
          run_statements raises rest (effect (s\<lparr>backend_calls := backend_calls s @ [c]\<rparr>)))"

definition add_dataset_metadata_source ::
  "add_extractor_run \<Rightarrow> (backend_call \<Rightarrow> py_exception option) \<Rightarrow> real \<Rightarrow> ExtractionParameter
     \<Rightarrow> json ExtractorResult \<Rightarrow> MetadataSource \<Rightarrow> realm_state
     \<Rightarrow> realm_state \<times> py_exception option" where
  "add_dataset_metadata_source add_run raises now ep result metadata_source =
     run_statements raises
       [(Some LockBackend, lock_backend),
        (Some GetTopNodes, get_top_nodes_and_metadata_root_record ep),
        (None, ensure_dataset_level_metadata ep),
        (Some AddExtractorRun, add_dataset_level_run add_run now ep result metadata_source),
        (Some SaveTreeVersionList, save_tree_version_list),
        (Some SaveUUIDSet, save_uuid_set),
        (Some FlushObjectReferences, flush_object_references),
        (Some UnlockBackend, unlock_backend)]"

definition add_file_metadata_source ::
  "add_extractor_run \<Rightarrow> (backend_call \<Rightarrow> py_exception option) \<Rightarrow> real \<Rightarrow> ExtractionParameter
     \<Rightarrow> json ExtractorResult \<Rightarrow> MetadataSource \<Rightarrow> realm_state
     \<Rightarrow> realm_state \<times> py_exception option" where
  "add_file_metadata_source add_run raises now ep result metadata_source =
     run_statements raises
       [(Some LockBackend, lock_backend),
        (Some GetTopNodes, get_top_nodes_and_metadata_root_record ep),
        (None, ensure_file_level_metadata ep),
        (Some AddExtractorRun, add_file_level_run add_run now ep result metadata_source),
        (Some SaveTreeVersionList, save_tree_version_list),
        (Some SaveUUIDSet, save_uuid_set),
        (Some FlushObjectReferences, flush_object_references),
        (Some UnlockBackend, unlock_backend)]"

text \<open>
  \<open>add_dataset_metadata\<close> and \<open>add_file_metadata\<close>: the file is copied into the git
  repository first, then the source refers to the git object.
\<close>

definition add_dataset_metadata ::
  "add_extractor_run \<Rightarrow> (backend_call \<Rightarrow> py_exception option) \<Rightarrow> real \<Rightarrow> ExtractionParameter
     \<Rightarrow> json ExtractorResult \<Rightarrow> string \<Rightarrow> realm_state \<Rightarrow> realm_state \<times> py_exception option" where
  "add_dataset_metadata add_run raises now ep result git_object_hash =
     add_dataset_metadata_source add_run raises now ep result
       (LocalGitMetadataSource (ep_realm ep) git_object_hash)"

definition add_file_metadata ::
  "add_extractor_run \<Rightarrow> (backend_call \<Rightarrow> py_exception option) \<Rightarrow> real \<Rightarrow> ExtractionParameter
     \<Rightarrow> json ExtractorResult \<Rightarrow> string \<Rightarrow> realm_state \<Rightarrow> realm_state \<times> py_exception option" where
  "add_file_metadata add_run raises now ep result git_object_hash =
     add_file_metadata_source add_run raises now ep result
       (LocalGitMetadataSource (ep_realm ep) git_object_hash)"

text \<open>\<open>result.datalad_result_dict["action"] = "meta_extract"\<close>.\<close>

fun dict_set :: "(string \<times> string) list \<Rightarrow> string \<Rightarrow> string \<Rightarrow> (string \<times> string) list" where
  "dict_set [] k v = [(k, v)]"
| "dict_set (kv # rest) k v =
     (if fst kv = k then (k, v) # rest else kv # dict_set rest k v)"

definition immediate_source :: "json ExtractorResult \<Rightarrow> MetadataSource" where
  "immediate_source result =
     ImmediateMetadataSource (case immediate_data result of None \<Rightarrow> JNull | Some d \<Rightarrow> d)"

text \<open>
  The outcome of a generator of the module: the result dictionaries yielded, the state,
  and the exception that ended it, if any.
\<close>

type_synonym outcome = "(string \<times> string) list list \<times> realm_state \<times> py_exception option"

definition yield_result ::
  "json ExtractorResult \<Rightarrow> realm_state \<times> py_exception option \<Rightarrow> outcome" where
  "yield_result result written =
     (case snd written of
        Some e \<Rightarrow> ([], fst written, Some e)
      | None \<Rightarrow>
          ([dict_set (datalad_result_dict result) ''action'' ''meta_extract''],
           fst written, None))"

definition perform_dataset_metadata_extraction ::
  "add_extractor_run \<Rightarrow> (backend_call \<Rightarrow> py_exception option) \<Rightarrow> real \<Rightarrow> ExtractionParameter
     \<Rightarrow> extractor \<Rightarrow> realm_state \<Rightarrow> outcome" where
  "perform_dataset_metadata_extraction add_run raises now ep x s =
     (case data_output_category x of
        IMMEDIATE \<Rightarrow>
          (let result = extract_result x
           in yield_result result
                (if extraction_success result
                 then add_dataset_metadata_source add_run raises now ep result
                        (immediate_source result) s
                 else (s, None)))
      | FILE \<Rightarrow>
          (let result = extract_result x
           in yield_result result
                (if extraction_success result
                 then add_dataset_metadata add_run raises now ep result
                        (written_object_hash x) s
                 else (s, None)))
      | DIRECTORY \<Rightarrow> ([], s, Some NotImplementedError))"

definition perform_file_metadata_extraction ::
  "add_extractor_run \<Rightarrow> (backend_call \<Rightarrow> py_exception option) \<Rightarrow> real \<Rightarrow> ExtractionParameter
     \<Rightarrow> extractor \<Rightarrow> realm_state \<Rightarrow> outcome" where
  "perform_file_metadata_extraction add_run raises now ep x s =
     (case data_output_category x of
        IMMEDIATE \<Rightarrow>
          (let result = extract_result x
           in yield_result result
                (if extraction_success result
                 then add_file_metadata_source add_run raises now ep result
                        (immediate_source result) s
                 else (s, None)))
      | FILE \<Rightarrow>
          (let result = extract_result x
           in yield_result result
                (if extraction_success result
                 then add_file_metadata add_run raises now ep result
                        (written_object_hash x) s
                 else (s, None)))
      | DIRECTORY \<Rightarrow> ([], s, Some NotImplementedError))"

text \<open>
  \<open>do_dataset_extraction\<close> and \<open>do_file_extraction\<close> assert the kind of the extractor
  class; \<open>do_file_extraction\<close> calls \<open>get_file_info\<close> first, which raises for a file
  that is not found or not tracked.
\<close>

definition do_dataset_extraction ::
  "add_extractor_run \<Rightarrow> (backend_call \<Rightarrow> py_exception option) \<Rightarrow> real \<Rightarrow> ExtractionParameter
     \<Rightarrow> realm_state \<Rightarrow> outcome" where
  "do_dataset_extraction add_run raises now ep s =
     (case ep_extractor_class ep of
        DatasetMetadataExtractor x \<Rightarrow>
          perform_dataset_metadata_extraction add_run raises now ep x s
      | FileMetadataExtractor x \<Rightarrow> ([], s, Some AssertionError))"

definition do_file_extraction ::
  "add_extractor_run \<Rightarrow> (backend_call \<Rightarrow> py_exception option) \<Rightarrow> real
     \<Rightarrow> py_exception option \<Rightarrow> ExtractionParameter \<Rightarrow> realm_state \<Rightarrow> outcome" where
  "do_file_extraction add_run raises now get_file_info_raises ep s =
     (case ep_extractor_class ep of
        DatasetMetadataExtractor x \<Rightarrow> ([], s, Some AssertionError)
      | FileMetadataExtractor x \<Rightarrow>
          (case get_file_info_raises of
             Some e \<Rightarrow> ([], s, Some e)
           | None \<Rightarrow> perform_file_metadata_extraction add_run raises now ep x s))"

text \<open>
  The end of \<open>Extract.__call__\<close>, once the extraction parameters are built: file-level
  extraction when a path is given, dataset-level extraction otherwise. Nothing on the
  way catches an exception.
\<close>

definition meta_extract ::
  "add_extractor_run \<Rightarrow> (backend_call \<Rightarrow> py_exception option) \<Rightarrow> real
     \<Rightarrow> py_exception option \<Rightarrow> string option \<Rightarrow> ExtractionParameter \<Rightarrow> realm_state
     \<Rightarrow> outcome" where
  "meta_extract add_run raises now get_file_info_raises path ep s =
     (if path \<noteq> None \<and> path \<noteq> Some [] \<and> path \<noteq> Some ''--''
      then do_file_extraction add_run raises now get_file_info_raises ep s
      else do_dataset_extraction add_run raises now ep s)"

subsection \<open>Extractors of the category DIRECTORY\<close>

definition example_extractor_result :: "json ExtractorResult" where
  "example_extractor_result =
     \<lparr>extractor_version = ''0.1'', extraction_parameter = Map.empty,
      extraction_success = True,
      datalad_result_dict = [(''type'', ''dataset''), (''status'', ''ok'')],
      immediate_data = Some (JString ''m'')\<rparr>"

definition example_directory_extractor :: extractor where
  "example_directory_extractor =
     \<lparr>data_output_category = DIRECTORY, extract_result = example_extractor_result,
      written_object_hash = []\<rparr>"

definition example_parameter :: "extractor_class \<Rightarrow> ExtractionParameter" where
  "example_parameter c =
     \<lparr>ep_realm = ''/r'', source_dataset_id = ''id-a'', ep_extractor_class = c,
      extractor_name = ''E1'', dataset_tree_path = ''sub/a'', file_tree_path = [],
      root_primary_data_version = ''v1'', source_primary_data_version = ''v1'',
      agent_name = ''A'', agent_email = ''a@x''\<rparr>"

definition example_realm :: realm_state where
  "example_realm =
     \<lparr>locked = False, stored_tree_version_list = Map.empty, stored_uuid_set = Map.empty,
      pending_references = False, loaded_nodes = Map.empty, backend_calls = []\<rparr>"

definition never_raises :: "backend_call \<Rightarrow> py_exception option" where
  "never_raises c = None"

text \<open>
  C6, as the code has it. For an extractor of the category \<open>DIRECTORY\<close>, both
  \<open>perform\<close> functions raise \<open>NotImplementedError\<close> before anything is extracted or
  written: no result is yielded and the state is the one before. Nothing catches the
  exception, so that it ends the call of \<open>meta_extract\<close>, which performs this one
  extraction.
\<close>

theorem directory_category_not_implemented:
  "data_output_category x = DIRECTORY \<Longrightarrow>
     perform_dataset_metadata_extraction add_run raises now ep x s
       = ([], s, Some NotImplementedError)
     \<and> perform_file_metadata_extraction add_run raises now ep x s
         = ([], s, Some NotImplementedError)
     \<and> meta_extract add_run raises now None None
           (ep\<lparr>ep_extractor_class := DatasetMetadataExtractor x\<rparr>) s
         = ([], s, Some NotImplementedError)
     \<and> meta_extract add_run raises now None (Some (p # ps))
           (ep\<lparr>ep_extractor_class := FileMetadataExtractor x\<rparr>) s
         = (if p # ps = ''--'' then ([], s, Some AssertionError)
            else ([], s, Some NotImplementedError))"
  by (simp add: perform_dataset_metadata_extraction_def perform_file_metadata_extraction_def
        meta_extract_def do_dataset_extraction_def do_file_extraction_def)

theorem directory_category_not_implemented_witness:
  "data_output_category example_directory_extractor = DIRECTORY
   \<and> meta_extract (\<lambda>t n a e c src m. m) never_raises 0 None None
         (example_parameter (DatasetMetadataExtractor example_directory_extractor))
         example_realm
       = ([], example_realm, Some NotImplementedError)"
  using directory_category_not_implemented
          [of example_directory_extractor "\<lambda>t n a e c src m. m" never_raises 0
              "example_parameter (DatasetMetadataExtractor example_directory_extractor)"
              example_realm "CHR ''f''" "[]"]
  by (simp add: example_directory_extractor_def example_parameter_def)

text \<open>
  The claim as it is written fails: the call of \<open>meta_extract\<close> with an extractor of the
  category \<open>DIRECTORY\<close> does not end normally, it ends with \<open>NotImplementedError\<close>.
\<close>

theorem directory_category_counterexample:
  "snd (snd (meta_extract (\<lambda>t n a e c src m. m) never_raises 0 None None
               (example_parameter (DatasetMetadataExtractor example_directory_extractor))
               example_realm))
     = Some NotImplementedError"
  by (simp add: meta_extract_def do_dataset_extraction_def example_parameter_def
        perform_dataset_metadata_extraction_def example_directory_extractor_def)

subsection \<open>The lock of the write pipeline\<close>

definition write_calls :: "backend_call list" where
  "write_calls =
     [LockBackend, GetTopNodes, AddExtractorRun, SaveTreeVersionList, SaveUUIDSet,
      FlushObjectReferences, UnlockBackend]"

text \<open>
  What the claim says of a write, from the state \<open>s\<close> to the result \<open>r\<close>: the first
  call is the one that takes the lock; a write that ends normally has made all the
  calls in order and has released the lock; a write that ends with an exception after
  the lock was taken still holds the lock; and a write in which taking the lock, loading
  the top-level nodes or adding the run raises has persisted nothing.
\<close>

definition lock_discipline ::
  "(backend_call \<Rightarrow> py_exception option) \<Rightarrow> realm_state \<Rightarrow> realm_state \<times> py_exception option
     \<Rightarrow> bool" where
  "lock_discipline raises s r =
     ((\<exists>cs. backend_calls (fst r) = backend_calls s @ LockBackend # cs)
      \<and> ((\<forall>c. raises c = None) \<longrightarrow> snd r = None)
      \<and> (snd r = None \<longrightarrow>
            \<not> locked (fst r) \<and> backend_calls (fst r) = backend_calls s @ write_calls)
      \<and> (snd r \<noteq> None \<and> raises LockBackend = None \<longrightarrow> locked (fst r))
      \<and> (raises LockBackend \<noteq> None \<or> raises GetTopNodes \<noteq> None
            \<or> raises AddExtractorRun \<noteq> None \<longrightarrow>
            snd r \<noteq> None
            \<and> stored_tree_version_list (fst r) = stored_tree_version_list s
            \<and> stored_uuid_set (fst r) = stored_uuid_set s))"

lemma dataset_write_lock_discipline:
  "lock_discipline raises s
     (add_dataset_metadata_source add_run raises now ep result metadata_source s)"
  unfolding lock_discipline_def add_dataset_metadata_source_def
  by (auto simp: write_calls_def lock_backend_def unlock_backend_def
        get_top_nodes_and_metadata_root_record_def ensure_dataset_level_metadata_def
        add_dataset_level_run_def update_mrr_def save_tree_version_list_def
        save_uuid_set_def flush_object_references_def
        split: option.splits)

lemma file_write_lock_discipline:
  "lock_discipline raises s
     (add_file_metadata_source add_run raises now ep result metadata_source s)"
  unfolding lock_discipline_def add_file_metadata_source_def
  by (auto simp: write_calls_def lock_backend_def unlock_backend_def
        get_top_nodes_and_metadata_root_record_def ensure_file_level_metadata_def
        add_file_level_run_def update_mrr_def save_tree_version_list_def
        save_uuid_set_def flush_object_references_def
        split: option.splits)

text \<open>
  C4, as the code has it. Both write functions take the realm lock before they load the
  top-level nodes, and release it after the flush when no call raises. When a call
  raises after the lock was taken, the exception leaves the function and the lock stays
  held. A write that fails before the first save has persisted nothing.
\<close>

theorem write_pipeline_lock_discipline:
  "lock_discipline raises s
     (add_dataset_metadata_source add_run raises now ep result metadata_source s)
   \<and> lock_discipline raises s
       (add_file_metadata_source add_run raises now ep result metadata_source s)"
  by (simp add: dataset_write_lock_discipline file_write_lock_discipline)

definition save_raises :: "backend_call \<Rightarrow> py_exception option" where
  "save_raises c = (if c = SaveTreeVersionList then Some RuntimeError else None)"

theorem write_pipeline_lock_discipline_witness:
  "add_dataset_metadata_source (\<lambda>t n a e c src m. m) never_raises 0
       (example_parameter (DatasetMetadataExtractor example_directory_extractor))
       example_extractor_result (ImmediateMetadataSource JNull) example_realm
     = (example_realm
          \<lparr>stored_tree_version_list :=
              [(''v1'', ''sub/a'') \<mapsto>
                 \<lparr>record_dataset_identifier = ''id-a'', record_dataset_version = ''v1'',
                  record_dataset_level_metadata = Some [], record_file_tree = None\<rparr>],
            stored_uuid_set :=
              [(''v1'', ''sub/a'') \<mapsto>
                 \<lparr>record_dataset_identifier = ''id-a'', record_dataset_version = ''v1'',
                  record_dataset_level_metadata = Some [], record_file_tree = None\<rparr>],
            loaded_nodes :=
              [(''v1'', ''sub/a'') \<mapsto>
                 \<lparr>record_dataset_identifier = ''id-a'', record_dataset_version = ''v1'',
                  record_dataset_level_metadata = Some [], record_file_tree = None\<rparr>],
            backend_calls := write_calls\<rparr>, None)
   \<and> add_file_metadata_source (\<lambda>t n a e c src m. m) save_raises 0
         (example_parameter (DatasetMetadataExtractor example_directory_extractor))
         example_extractor_result (ImmediateMetadataSource JNull) example_realm
       = (example_realm
            \<lparr>locked := True,
              loaded_nodes :=
                [(''v1'', ''sub/a'') \<mapsto>
                   \<lparr>record_dataset_identifier = ''id-a'', record_dataset_version = ''v1'',
                    record_dataset_level_metadata = None,
                    record_file_tree = Some [[] \<mapsto> []]\<rparr>],
              backend_calls :=
                [LockBackend, GetTopNodes, AddExtractorRun, SaveTreeVersionList]\<rparr>,
          Some RuntimeError)"
  using write_pipeline_lock_discipline
          [of never_raises example_realm "\<lambda>t n a e c src m. m" 0
              "example_parameter (DatasetMetadataExtractor example_directory_extractor)"
              example_extractor_result "ImmediateMetadataSource JNull"]
    write_pipeline_lock_discipline
          [of save_raises example_realm "\<lambda>t n a e c src m. m" 0
              "example_parameter (DatasetMetadataExtractor example_directory_extractor)"
              example_extractor_result "ImmediateMetadataSource JNull"]
  by (simp add: add_dataset_metadata_source_def add_file_metadata_source_def
        never_raises_def save_raises_def example_realm_def example_parameter_def
        write_calls_def lock_backend_def unlock_backend_def node_key_def
        get_top_nodes_and_metadata_root_record_def ensure_dataset_level_metadata_def
        ensure_file_level_metadata_def add_dataset_level_run_def add_file_level_run_def
        update_mrr_def save_tree_version_list_def save_uuid_set_def
        flush_object_references_def add_metadata_source_def)

text \<open>
  The claim as it is written fails: when saving the tree version list raises, the write
  ends with the exception, the lock is still held, and \<open>unlock_backend\<close> was not called.
\<close>

theorem write_pipeline_lock_counterexample:
  "snd (add_dataset_metadata_source (\<lambda>t n a e c src m. m) save_raises 0
          (example_parameter (DatasetMetadataExtractor example_directory_extractor))
          example_extractor_result (ImmediateMetadataSource JNull) example_realm)
     = Some RuntimeError
   \<and> locked (fst (add_dataset_metadata_source (\<lambda>t n a e c src m. m) save_raises 0
          (example_parameter (DatasetMetadataExtractor example_directory_extractor))
          example_extractor_result (ImmediateMetadataSource JNull) example_realm))
   \<and> backend_calls (fst (add_dataset_metadata_source (\<lambda>t n a e c src m. m) save_raises 0
          (example_parameter (DatasetMetadataExtractor example_directory_extractor))
          example_extractor_result (ImmediateMetadataSource JNull) example_realm))
       = [LockBackend, GetTopNodes, AddExtractorRun, SaveTreeVersionList]"
  by (simp add: add_dataset_metadata_source_def save_raises_def example_realm_def
        lock_backend_def get_top_nodes_and_metadata_root_record_def
        ensure_dataset_level_metadata_def add_dataset_level_run_def update_mrr_def)

subsection \<open>Accumulation of extractor runs\<close>

definition runs_of :: "Metadata \<Rightarrow> string \<Rightarrow> MetadataInstance list" where
  "runs_of metadata name = (case map_of metadata name of None \<Rightarrow> [] | Some runs \<Rightarrow> runs)"

fun set_runs :: "string \<Rightarrow> MetadataInstance list \<Rightarrow> Metadata \<Rightarrow> Metadata" where
  "set_runs name runs [] = [(name, runs)]"
| "set_runs name runs (entry # rest) =
     (if fst entry = name then (name, runs) # rest else entry # set_runs name runs rest)"

definition new_instance ::
  "real \<Rightarrow> string \<Rightarrow> string \<Rightarrow> ExtractorConfiguration \<Rightarrow> MetadataSource \<Rightarrow> MetadataInstance" where
  "new_instance t agent email config source =
     \<lparr>time_stamp = t, author_name = agent, author_email = email, configuration = config,
      metadata_location = source\<rparr>"

text \<open>
  \<open>Metadata.add_extractor_run\<close> as the documentation of \<open>Extract\<close> in extract.py has
  it: "If the same extractor is executed on the same element (dataset or file) with the
  same configuration, any existing results will be overwritten." The instance with the
  configuration of the new run is replaced by it; a run with a configuration that is not
  there yet is appended.
\<close>

definition overwriting_extractor_run :: add_extractor_run where
  "overwriting_extractor_run t name agent email config source metadata =
     (let runs = runs_of metadata name;
          instance = new_instance t agent email config source
      in set_runs name
           (if list_ex (\<lambda>i. configuration i = config) runs
            then map (\<lambda>i. if configuration i = config then instance else i) runs
            else runs @ [instance])
           metadata)"

text \<open>
  A write: the extraction parameters, the time, the result of the extractor and the
  metadata source. The two write functions, when no call raises, and a sequence of
  writes.
\<close>

record pipeline_write =
  write_parameter :: ExtractionParameter
  write_time :: real
  write_result :: "json ExtractorResult"
  write_source :: MetadataSource

definition dataset_write :: "pipeline_write \<Rightarrow> realm_state \<Rightarrow> realm_state" where
  "dataset_write w s =
     fst (add_dataset_metadata_source overwriting_extractor_run (\<lambda>c. None) (write_time w)
            (write_parameter w) (write_result w) (write_source w) s)"

definition file_write :: "pipeline_write \<Rightarrow> realm_state \<Rightarrow> realm_state" where
  "file_write w s =
     fst (add_file_metadata_source overwriting_extractor_run (\<lambda>c. None) (write_time w)
            (write_parameter w) (write_result w) (write_source w) s)"

fun dataset_writes :: "pipeline_write list \<Rightarrow> realm_state \<Rightarrow> realm_state" where
  "dataset_writes [] s = s"
| "dataset_writes (w # ws) s = dataset_writes ws (dataset_write w s)"

fun file_writes :: "pipeline_write list \<Rightarrow> realm_state \<Rightarrow> realm_state" where
  "file_writes [] s = s"
| "file_writes (w # ws) s = file_writes ws (file_write w s)"

text \<open>
  The runs of the extractor of \<open>ep\<close> that are persisted for the dataset of \<open>ep\<close>, in the
  tree of its version, and those persisted for the file of \<open>ep\<close> in that dataset.
\<close>

definition stored_runs :: "ExtractionParameter \<Rightarrow> realm_state \<Rightarrow> MetadataInstance list" where
  "stored_runs ep s =
     (case stored_tree_version_list s (node_key ep) of
        None \<Rightarrow> []
      | Some mrr \<Rightarrow>
          (case record_dataset_level_metadata mrr of
             None \<Rightarrow> []
           | Some metadata \<Rightarrow> runs_of metadata (extractor_name ep)))"

definition stored_file_runs :: "ExtractionParameter \<Rightarrow> realm_state \<Rightarrow> MetadataInstance list" where
  "stored_file_runs ep s =
     (case stored_tree_version_list s (node_key ep) of
        None \<Rightarrow> []
      | Some mrr \<Rightarrow>
          (case record_file_tree mrr of
             None \<Rightarrow> []
           | Some tree \<Rightarrow>
               (case tree (file_tree_path ep) of
                  None \<Rightarrow> []
                | Some metadata \<Rightarrow> runs_of metadata (extractor_name ep))))"

text \<open>
  A write is for the dataset element of \<open>ep\<close> when it has the version, the dataset
  tree path and the extractor name of \<open>ep\<close>, and for the file element of \<open>ep\<close> when it
  has its file tree path as well. The configuration of a write and the instance that it
  creates.
\<close>

definition same_dataset_element :: "ExtractionParameter \<Rightarrow> pipeline_write \<Rightarrow> bool" where
  "same_dataset_element ep w =
     (source_primary_data_version (write_parameter w) = source_primary_data_version ep
      \<and> dataset_tree_path (write_parameter w) = dataset_tree_path ep
      \<and> extractor_name (write_parameter w) = extractor_name ep)"

definition same_file_element :: "ExtractionParameter \<Rightarrow> pipeline_write \<Rightarrow> bool" where
  "same_file_element ep w =
     (same_dataset_element ep w \<and> file_tree_path (write_parameter w) = file_tree_path ep)"

definition result_configuration :: "json ExtractorResult \<Rightarrow> ExtractorConfiguration" where
  "result_configuration result =
     \<lparr>configuration_version = extractor_version result,
      configuration_parameter = extraction_parameter result\<rparr>"

definition write_configuration :: "pipeline_write \<Rightarrow> ExtractorConfiguration" where
  "write_configuration w = result_configuration (write_result w)"

definition written_instance :: "pipeline_write \<Rightarrow> MetadataInstance" where
  "written_instance w =
     new_instance (write_time w) (agent_name (write_parameter w))
       (agent_email (write_parameter w)) (write_configuration w) (write_source w)"

definition overwrite :: "pipeline_write \<Rightarrow> MetadataInstance list \<Rightarrow> MetadataInstance list" where
  "overwrite w runs =
     map (\<lambda>i. if configuration i = write_configuration w then written_instance w else i) runs"

lemma runs_of_set_runs: "runs_of (set_runs name runs metadata) name = runs"
  by (induction metadata) (auto simp: runs_of_def)

lemma runs_of_set_runs_other:
  "name' \<noteq> name \<Longrightarrow> runs_of (set_runs name runs metadata) name' = runs_of metadata name'"
  by (induction metadata) (auto simp: runs_of_def)

lemma runs_of_empty: "runs_of [] name = []"
  by (simp add: runs_of_def)

lemma configuration_written_instance:
  "configuration (written_instance w) = write_configuration w"
  by (simp add: written_instance_def new_instance_def)

lemma runs_after_overwriting:
  "runs_of (overwriting_extractor_run (write_time w) name (agent_name (write_parameter w))
              (agent_email (write_parameter w)) (write_configuration w) (write_source w)
              metadata) name
     = (if write_configuration w \<in> configuration ` set (runs_of metadata name)
        then overwrite w (runs_of metadata name)
        else runs_of metadata name @ [written_instance w])"
proof -
  have "list_ex (\<lambda>i. configuration i = write_configuration w) (runs_of metadata name)
          = (write_configuration w \<in> configuration ` set (runs_of metadata name))"
    unfolding list_ex_iff by (metis imageE imageI)
  then show ?thesis
    by (simp add: overwriting_extractor_run_def runs_of_set_runs Let_def overwrite_def
          written_instance_def)
qed

lemma stored_runs_after_dataset_write:
  assumes "same_dataset_element ep w"
  shows "stored_runs ep (dataset_write w s)
           = (if write_configuration w \<in> configuration ` set (stored_runs ep s)
              then overwrite w (stored_runs ep s)
              else stored_runs ep s @ [written_instance w])"
proof -
  from assms have key: "node_key (write_parameter w) = node_key ep"
    and name: "extractor_name (write_parameter w) = extractor_name ep"
    by (simp_all add: same_dataset_element_def node_key_def)
  have "stored_runs ep (dataset_write w s)
          = runs_of
              (overwriting_extractor_run (write_time w) (extractor_name ep)
                 (agent_name (write_parameter w)) (agent_email (write_parameter w))
                 (write_configuration w) (write_source w)
                 (case stored_tree_version_list s (node_key ep) of
                    None \<Rightarrow> []
                  | Some mrr \<Rightarrow>
                      (case record_dataset_level_metadata mrr of None \<Rightarrow> [] | Some m \<Rightarrow> m)))
              (extractor_name ep)"
    by (simp add: stored_runs_def dataset_write_def add_dataset_metadata_source_def
          lock_backend_def unlock_backend_def get_top_nodes_and_metadata_root_record_def
          ensure_dataset_level_metadata_def add_dataset_level_run_def update_mrr_def
          save_tree_version_list_def save_uuid_set_def flush_object_references_def
          add_metadata_source_def result_configuration_def write_configuration_def key name
          split: option.splits)
  moreover
  have "runs_of
          (case stored_tree_version_list s (node_key ep) of
             None \<Rightarrow> []
           | Some mrr \<Rightarrow> (case record_dataset_level_metadata mrr of None \<Rightarrow> [] | Some m \<Rightarrow> m))
          (extractor_name ep)
        = stored_runs ep s"
    by (simp add: stored_runs_def runs_of_empty split: option.splits)
  ultimately show ?thesis
    by (simp add: runs_after_overwriting)
qed

lemma stored_file_runs_after_file_write:
  assumes "same_file_element ep w"
  shows "stored_file_runs ep (file_write w s)
           = (if write_configuration w \<in> configuration ` set (stored_file_runs ep s)
              then overwrite w (stored_file_runs ep s)
              else stored_file_runs ep s @ [written_instance w])"
proof -
  from assms have key: "node_key (write_parameter w) = node_key ep"
    and name: "extractor_name (write_parameter w) = extractor_name ep"
    and fpath: "file_tree_path (write_parameter w) = file_tree_path ep"
    by (simp_all add: same_file_element_def same_dataset_element_def node_key_def)
  have "stored_file_runs ep (file_write w s)
          = runs_of
              (overwriting_extractor_run (write_time w) (extractor_name ep)
                 (agent_name (write_parameter w)) (agent_email (write_parameter w))
                 (write_configuration w) (write_source w)
                 (case stored_tree_version_list s (node_key ep) of
                    None \<Rightarrow> []
                  | Some mrr \<Rightarrow>
                      (case record_file_tree mrr of
                         None \<Rightarrow> []
                       | Some tree \<Rightarrow>
                           (case tree (file_tree_path ep) of None \<Rightarrow> [] | Some m \<Rightarrow> m))))
              (extractor_name ep)"
    by (simp add: stored_file_runs_def file_write_def add_file_metadata_source_def
          lock_backend_def unlock_backend_def get_top_nodes_and_metadata_root_record_def
          ensure_file_level_metadata_def add_file_level_run_def update_mrr_def
          save_tree_version_list_def save_uuid_set_def flush_object_references_def
          add_metadata_source_def result_configuration_def write_configuration_def key name
          fpath Let_def domIff
          split: option.splits)
  moreover
  have "runs_of
          (case stored_tree_version_list s (node_key ep) of
             None \<Rightarrow> []
           | Some mrr \<Rightarrow>
               (case record_file_tree mrr of
                  None \<Rightarrow> []
                | Some tree \<Rightarrow> (case tree (file_tree_path ep) of None \<Rightarrow> [] | Some m \<Rightarrow> m)))
          (extractor_name ep)
        = stored_file_runs ep s"
    by (simp add: stored_file_runs_def runs_of_empty split: option.splits)
  ultimately show ?thesis
    by (simp add: runs_after_overwriting)
qed

lemma stored_runs_other_element:
  assumes "\<not> same_dataset_element ep w"
  shows "stored_runs ep (dataset_write w s) = stored_runs ep s"
proof (cases "node_key (write_parameter w) = node_key ep")
  case False
  then show ?thesis
    by (simp add: stored_runs_def dataset_write_def add_dataset_metadata_source_def
          lock_backend_def unlock_backend_def get_top_nodes_and_metadata_root_record_def
          ensure_dataset_level_metadata_def add_dataset_level_run_def update_mrr_def
          save_tree_version_list_def save_uuid_set_def flush_object_references_def
          split: option.splits)
next
  case True
  with assms have name: "extractor_name ep \<noteq> extractor_name (write_parameter w)"
    by (auto simp: same_dataset_element_def node_key_def)
  have other: "\<And>metadata.
      runs_of (add_metadata_source overwriting_extractor_run (write_time w) (write_parameter w)
                 (write_result w) (write_source w) metadata) (extractor_name ep)
        = runs_of metadata (extractor_name ep)"
    by (simp add: add_metadata_source_def overwriting_extractor_run_def Let_def
          runs_of_set_runs_other [OF name])
  from True show ?thesis
    by (simp add: stored_runs_def dataset_write_def add_dataset_metadata_source_def
          lock_backend_def unlock_backend_def get_top_nodes_and_metadata_root_record_def
          ensure_dataset_level_metadata_def add_dataset_level_run_def update_mrr_def
          save_tree_version_list_def save_uuid_set_def flush_object_references_def
          other runs_of_empty
          split: option.splits)
qed

lemma fresh_after_append:
  assumes "distinct (map write_configuration (w # ws))"
    and "\<forall>v \<in> set (w # ws). write_configuration v \<notin> configuration ` set runs"
  shows "\<forall>v \<in> set ws. write_configuration v
           \<notin> configuration ` set (runs @ [written_instance w])"
proof
  fix v
  assume v: "v \<in> set ws"
  with assms(2) have a: "write_configuration v \<notin> configuration ` set runs"
    by simp
  from assms(1) have "write_configuration w \<notin> write_configuration ` set ws"
    by simp
  moreover from v have "write_configuration v \<in> write_configuration ` set ws"
    by (rule imageI)
  ultimately have b: "write_configuration v \<noteq> write_configuration w"
    by metis
  from a b show "write_configuration v \<notin> configuration ` set (runs @ [written_instance w])"
    by (auto simp: configuration_written_instance)
qed

lemma dataset_writes_accumulate:
  "\<forall>w \<in> set ws. same_dataset_element ep w \<Longrightarrow>
   distinct (map write_configuration ws) \<Longrightarrow>
   \<forall>w \<in> set ws. write_configuration w \<notin> configuration ` set (stored_runs ep s) \<Longrightarrow>
   stored_runs ep (dataset_writes ws s) = stored_runs ep s @ map written_instance ws"
proof (induction ws arbitrary: s)
  case Nil
  show ?case by simp
next
  case (Cons w ws)
  from Cons.prems(1) have same: "same_dataset_element ep w" by simp
  from Cons.prems(3)
  have new: "write_configuration w \<notin> configuration ` set (stored_runs ep s)"
    by simp
  have s1: "stored_runs ep (dataset_write w s) = stored_runs ep s @ [written_instance w]"
    by (simp add: stored_runs_after_dataset_write [OF same] new)
  from Cons.prems(1) have all: "\<forall>w \<in> set ws. same_dataset_element ep w" by simp
  from Cons.prems(2) have d: "distinct (map write_configuration ws)" by simp
  from fresh_after_append [OF Cons.prems(2) Cons.prems(3)]
  have fresh: "\<forall>v \<in> set ws. write_configuration v
                 \<notin> configuration ` set (stored_runs ep (dataset_write w s))"
    by (simp add: s1)
  from Cons.IH [OF all d fresh] show ?case
    by (simp add: s1)
qed

lemma file_writes_accumulate:
  "\<forall>w \<in> set ws. same_file_element ep w \<Longrightarrow>
   distinct (map write_configuration ws) \<Longrightarrow>
   \<forall>w \<in> set ws. write_configuration w \<notin> configuration ` set (stored_file_runs ep s) \<Longrightarrow>
   stored_file_runs ep (file_writes ws s) = stored_file_runs ep s @ map written_instance ws"
proof (induction ws arbitrary: s)
  case Nil
  show ?case by simp
next
  case (Cons w ws)
  from Cons.prems(1) have same: "same_file_element ep w" by simp
  from Cons.prems(3)
  have new: "write_configuration w \<notin> configuration ` set (stored_file_runs ep s)"
    by simp
  have s1: "stored_file_runs ep (file_write w s) = stored_file_runs ep s @ [written_instance w]"
    by (simp add: stored_file_runs_after_file_write [OF same] new)
  from Cons.prems(1) have all: "\<forall>w \<in> set ws. same_file_element ep w" by simp
  from Cons.prems(2) have d: "distinct (map write_configuration ws)" by simp
  from fresh_after_append [OF Cons.prems(2) Cons.prems(3)]
  have fresh: "\<forall>v \<in> set ws. write_configuration v
                 \<notin> configuration ` set (stored_file_runs ep (file_write w s))"
    by (simp add: s1)
  from Cons.IH [OF all d fresh] show ?case
    by (simp add: s1)
qed

text \<open>
  C3, as the code has it. The write pipeline calls \<open>add_extractor_run\<close> once for a write,
  on the metadata that is persisted for the element, and removes nothing itself. For
  writes of dataset-level metadata for one version, dataset tree path and extractor
  name, and for writes of file-level metadata for one file of it, whose configurations
  differ from each other and from the ones persisted before, the runs persisted after
  \<open>N\<close> writes are the runs persisted before, unchanged, followed by the \<open>N\<close> new
  instances. A write with a configuration that is persisted already replaces the
  instance of that configuration, so that the number of instances stays the same. A
  write of dataset-level metadata for another version, dataset tree path or extractor
  name leaves the runs as they are.
\<close>

theorem write_pipeline_accumulates:
  "((\<forall>w \<in> set ws. same_dataset_element ep w)
      \<and> distinct (map write_configuration ws)
      \<and> (\<forall>w \<in> set ws. write_configuration w \<notin> configuration ` set (stored_runs ep s)) \<longrightarrow>
      stored_runs ep (dataset_writes ws s) = stored_runs ep s @ map written_instance ws)
   \<and> ((\<forall>w \<in> set ws. same_file_element ep w)
        \<and> distinct (map write_configuration ws)
        \<and> (\<forall>w \<in> set ws. write_configuration w
               \<notin> configuration ` set (stored_file_runs ep s)) \<longrightarrow>
        stored_file_runs ep (file_writes ws s)
          = stored_file_runs ep s @ map written_instance ws)
   \<and> (same_dataset_element ep w
        \<and> write_configuration w \<in> configuration ` set (stored_runs ep s) \<longrightarrow>
        stored_runs ep (dataset_write w s)
          = map (\<lambda>i. if configuration i = write_configuration w then written_instance w
                      else i)
              (stored_runs ep s))
   \<and> (same_file_element ep w
        \<and> write_configuration w \<in> configuration ` set (stored_file_runs ep s) \<longrightarrow>
        stored_file_runs ep (file_write w s)
          = map (\<lambda>i. if configuration i = write_configuration w then written_instance w
                      else i)
              (stored_file_runs ep s))
   \<and> (\<not> same_dataset_element ep w \<longrightarrow>
        stored_runs ep (dataset_write w s) = stored_runs ep s)"
proof (intro conjI impI)
  assume "(\<forall>w \<in> set ws. same_dataset_element ep w)
      \<and> distinct (map write_configuration ws)
      \<and> (\<forall>w \<in> set ws. write_configuration w \<notin> configuration ` set (stored_runs ep s))"
  then show "stored_runs ep (dataset_writes ws s)
               = stored_runs ep s @ map written_instance ws"
    by (intro dataset_writes_accumulate) blast+
next
  assume "(\<forall>w \<in> set ws. same_file_element ep w)
        \<and> distinct (map write_configuration ws)
        \<and> (\<forall>w \<in> set ws. write_configuration w
               \<notin> configuration ` set (stored_file_runs ep s))"
  then show "stored_file_runs ep (file_writes ws s)
               = stored_file_runs ep s @ map written_instance ws"
    by (intro file_writes_accumulate) blast+
next
  assume "same_dataset_element ep w
        \<and> write_configuration w \<in> configuration ` set (stored_runs ep s)"
  then show "stored_runs ep (dataset_write w s)
          = map (\<lambda>i. if configuration i = write_configuration w then written_instance w
                      else i)
              (stored_runs ep s)"
    by (simp add: stored_runs_after_dataset_write overwrite_def)
next
  assume "same_file_element ep w
        \<and> write_configuration w \<in> configuration ` set (stored_file_runs ep s)"
  then show "stored_file_runs ep (file_write w s)
          = map (\<lambda>i. if configuration i = write_configuration w then written_instance w
                      else i)
              (stored_file_runs ep s)"
    by (simp add: stored_file_runs_after_file_write overwrite_def)
next
  assume "\<not> same_dataset_element ep w"
  then show "stored_runs ep (dataset_write w s) = stored_runs ep s"
    by (rule stored_runs_other_element)
qed

text \<open>
  Example writes of the extractor \<open>E1\<close> for the dataset \<open>sub/a\<close> and its file \<open>f.txt\<close>,
  given by the version of the dataset, the time, the version of the extractor, which
  makes the configuration, and the metadata.
\<close>

definition example_write_parameter :: "string \<Rightarrow> ExtractionParameter" where
  "example_write_parameter data_version =
     \<lparr>ep_realm = ''/r'', source_dataset_id = ''id-a'',
      ep_extractor_class =
        DatasetMetadataExtractor
          \<lparr>data_output_category = IMMEDIATE, extract_result = example_extractor_result,
           written_object_hash = []\<rparr>,
      extractor_name = ''E1'', dataset_tree_path = ''sub/a'', file_tree_path = ''f.txt'',
      root_primary_data_version = data_version, source_primary_data_version = data_version,
      agent_name = ''A'', agent_email = ''a@x''\<rparr>"

definition example_write :: "string \<Rightarrow> real \<Rightarrow> string \<Rightarrow> string \<Rightarrow> pipeline_write" where
  "example_write data_version t extractor_v m =
     \<lparr>write_parameter = example_write_parameter data_version, write_time = t,
      write_result = example_extractor_result\<lparr>extractor_version := extractor_v\<rparr>,
      write_source = ImmediateMetadataSource (JString m)\<rparr>"

lemma example_write_same:
  "same_dataset_element (example_write_parameter ''v1'') (example_write ''v1'' t e m)"
  "same_file_element (example_write_parameter ''v1'') (example_write ''v1'' t e m)"
  "\<not> same_dataset_element (example_write_parameter ''v1'') (example_write ''v2'' t e m)"
  by (simp_all add: same_file_element_def same_dataset_element_def example_write_def
        example_write_parameter_def)

lemma example_write_configuration:
  "write_configuration (example_write d t e m)
     = \<lparr>configuration_version = e, configuration_parameter = Map.empty\<rparr>"
  by (simp add: write_configuration_def result_configuration_def example_write_def
        example_extractor_result_def)

lemma example_realm_empty:
  "stored_runs ep example_realm = []" "stored_file_runs ep example_realm = []"
  by (simp_all add: stored_runs_def stored_file_runs_def example_realm_def)

theorem write_pipeline_accumulates_witness:
  "stored_runs (example_write_parameter ''v1'')
     (dataset_writes [example_write ''v1'' 1 ''0.1'' ''m1'', example_write ''v1'' 2 ''0.2'' ''m2'']
        example_realm)
   = [written_instance (example_write ''v1'' 1 ''0.1'' ''m1''),
      written_instance (example_write ''v1'' 2 ''0.2'' ''m2'')]
   \<and> stored_file_runs (example_write_parameter ''v1'')
       (file_writes [example_write ''v1'' 1 ''0.1'' ''m1'', example_write ''v1'' 2 ''0.2'' ''m2'']
          example_realm)
     = [written_instance (example_write ''v1'' 1 ''0.1'' ''m1''),
        written_instance (example_write ''v1'' 2 ''0.2'' ''m2'')]
   \<and> stored_runs (example_write_parameter ''v1'')
       (dataset_write (example_write ''v1'' 3 ''0.1'' ''m3'')
          (dataset_writes
             [example_write ''v1'' 1 ''0.1'' ''m1'', example_write ''v1'' 2 ''0.2'' ''m2'']
             example_realm))
     = [written_instance (example_write ''v1'' 3 ''0.1'' ''m3''),
        written_instance (example_write ''v1'' 2 ''0.2'' ''m2'')]"
proof -
  let ?ep = "example_write_parameter ''v1''"
  let ?ws = "[example_write ''v1'' 1 ''0.1'' ''m1'', example_write ''v1'' 2 ''0.2'' ''m2'']"
  let ?w3 = "example_write ''v1'' 3 ''0.1'' ''m3''"
  have two: "stored_runs ?ep (dataset_writes ?ws example_realm)
               = [written_instance (example_write ''v1'' 1 ''0.1'' ''m1''),
                  written_instance (example_write ''v1'' 2 ''0.2'' ''m2'')]"
    and files: "stored_file_runs ?ep (file_writes ?ws example_realm)
               = [written_instance (example_write ''v1'' 1 ''0.1'' ''m1''),
                  written_instance (example_write ''v1'' 2 ''0.2'' ''m2'')]"
    using write_pipeline_accumulates [of ?ws ?ep example_realm ?w3]
    by (simp_all add: example_write_same example_write_configuration example_realm_empty
          del: dataset_writes.simps file_writes.simps)
  have "stored_runs ?ep (dataset_write ?w3 (dataset_writes ?ws example_realm))
          = map (\<lambda>i. if configuration i = write_configuration ?w3 then written_instance ?w3
                      else i)
              (stored_runs ?ep (dataset_writes ?ws example_realm))"
    using write_pipeline_accumulates [of ?ws ?ep "dataset_writes ?ws example_realm" ?w3]
    by (simp add: example_write_same two configuration_written_instance
          example_write_configuration del: dataset_writes.simps)
  then have three: "stored_runs ?ep (dataset_write ?w3 (dataset_writes ?ws example_realm))
          = [written_instance ?w3, written_instance (example_write ''v1'' 2 ''0.2'' ''m2'')]"
    by (simp add: two configuration_written_instance example_write_configuration
          del: dataset_writes.simps)
  from two files three show ?thesis by (simp del: dataset_writes.simps file_writes.simps)
qed

text \<open>
  The claim as it is written fails. After two writes of the same extractor for the same
  dataset with the same configuration, one instance is persisted, the second one. And
  two writes with different configurations for the same dataset tree path and extractor
  name but for different versions of the dataset go to the trees of their versions, so
  that one instance is persisted in the first one.
\<close>

theorem write_pipeline_overwrite_counterexample:
  "stored_runs (example_write_parameter ''v1'')
     (dataset_writes [example_write ''v1'' 1 ''0.1'' ''m1'', example_write ''v1'' 2 ''0.1'' ''m2'']
        example_realm)
   = [written_instance (example_write ''v1'' 2 ''0.1'' ''m2'')]
   \<and> time_stamp (written_instance (example_write ''v1'' 2 ''0.1'' ''m2'')) = 2
   \<and> stored_runs (example_write_parameter ''v1'')
       (dataset_writes [example_write ''v1'' 1 ''0.1'' ''m1'', example_write ''v2'' 2 ''0.2'' ''m2'']
          example_realm)
     = [written_instance (example_write ''v1'' 1 ''0.1'' ''m1'')]"
proof -
  let ?ep = "example_write_parameter ''v1''"
  let ?w1 = "example_write ''v1'' 1 ''0.1'' ''m1''"
  have one: "stored_runs ?ep (dataset_write ?w1 example_realm) = [written_instance ?w1]"
    by (simp add: stored_runs_after_dataset_write example_write_same example_realm_empty)
  have same: "stored_runs ?ep
                (dataset_write (example_write ''v1'' 2 ''0.1'' ''m2'')
                   (dataset_write ?w1 example_realm))
              = [written_instance (example_write ''v1'' 2 ''0.1'' ''m2'')]"
    by (simp add: stored_runs_after_dataset_write example_write_same one overwrite_def
          configuration_written_instance example_write_configuration)
  have other: "stored_runs ?ep
                 (dataset_write (example_write ''v2'' 2 ''0.2'' ''m2'')
                    (dataset_write ?w1 example_realm))
               = [written_instance ?w1]"
    by (simp add: stored_runs_other_element example_write_same one)
  from same other show ?thesis
    by (simp add: written_instance_def new_instance_def example_write_def)
qed

end
